theory Spec2Isabelle
  imports Complex_Main
begin

section \<open>Scalars, points and vectors\<close>

text \<open>
  The embedding follows \<^verbatim>\<open>src/pbrt/materials.h\<close>. The scalar type \<^verbatim>\<open>Float\<close> is read as
  a real number. Arithmetic is exact, except where the rounding of \<^verbatim>\<open>Float\<close> operations is
  written out (the reflectance inversion of the conductor, see \<open>Rounded arithmetic\<close> below);
  infinities and NaN are not values of the model. \<^verbatim>\<open>Vector3f\<close>, \<^verbatim>\<open>Normal3f\<close> and
  \<^verbatim>\<open>Point3f\<close> are triples of coordinates (a \<^verbatim>\<open>Vector3f(n)\<close> conversion of a normal is the
  identity on the coordinates).
\<close>

type_synonym Float = real
type_synonym Vector3f = "Float \<times> Float \<times> Float"
type_synonym Normal3f = "Float \<times> Float \<times> Float"
type_synonym Point3f = "Float \<times> Float \<times> Float"
type_synonym Point2f = "Float \<times> Float"

text \<open>Modelled from the spec: \<^verbatim>\<open>operator+\<close> on vectors and points (from
  \<^verbatim>\<open>pbrt/util/vecmath.h\<close>, which is not among the sources): coordinatewise sum.\<close>

fun vadd :: "Vector3f \<Rightarrow> Vector3f \<Rightarrow> Vector3f" where
  "vadd (a1, a2, a3) (b1, b2, b3) = (a1 + b1, a2 + b2, a3 + b3)"

text \<open>Modelled from the spec: \<^verbatim>\<open>operator-\<close> on vectors (\<^verbatim>\<open>pbrt/util/vecmath.h\<close>):
  coordinatewise difference.\<close>

fun vsub :: "Vector3f \<Rightarrow> Vector3f \<Rightarrow> Vector3f" where
  "vsub (a1, a2, a3) (b1, b2, b3) = (a1 - b1, a2 - b2, a3 - b3)"

text \<open>Modelled from the spec: the product of a scalar and a vector
  (\<^verbatim>\<open>pbrt/util/vecmath.h\<close>).\<close>

fun vscale :: "Float \<Rightarrow> Vector3f \<Rightarrow> Vector3f" where
  "vscale s (a1, a2, a3) = (s * a1, s * a2, s * a3)"

text \<open>Modelled from the spec: \<^verbatim>\<open>Dot\<close> (\<^verbatim>\<open>pbrt/util/vecmath.h\<close>), the inner product.\<close>

fun Dot :: "Vector3f \<Rightarrow> Vector3f \<Rightarrow> Float" where
  "Dot (a1, a2, a3) (b1, b2, b3) = a1 * b1 + a2 * b2 + a3 * b3"

text \<open>Modelled from the spec: \<^verbatim>\<open>Cross\<close> (\<^verbatim>\<open>pbrt/util/vecmath.h\<close>), the cross product
  \<open>cross(new normal, new dp/du)\<close> of the normal-map path.\<close>

fun Cross :: "Vector3f \<Rightarrow> Vector3f \<Rightarrow> Vector3f" where
  "Cross (a1, a2, a3) (b1, b2, b3) =
     (a2 * b3 - a3 * b2, a3 * b1 - a1 * b3, a1 * b2 - a2 * b1)"

text \<open>Modelled from the spec: \<^verbatim>\<open>Length\<close> (\<^verbatim>\<open>pbrt/util/vecmath.h\<close>), the Euclidean
  vector magnitude.\<close>

fun Length :: "Vector3f \<Rightarrow> Float" where
  "Length (a1, a2, a3) = sqrt (a1 * a1 + a2 * a2 + a3 * a3)"

text \<open>Modelled from the spec: \<^verbatim>\<open>Normalize\<close> (\<^verbatim>\<open>pbrt/util/vecmath.h\<close>): the vector
  divided by its length (\<open>normalize to a unit vector\<close>). The division of the model is the
  total one of the reals, so the zero vector is sent to the zero vector, where the C++
  division produces NaN coordinates.\<close>

definition Normalize :: "Vector3f \<Rightarrow> Vector3f" where
  "Normalize v = vscale (1 / Length v) v"

text \<open>Modelled from the spec: \<^verbatim>\<open>GramSchmidt\<close> (\<^verbatim>\<open>pbrt/util/vecmath.h\<close>): \<open>v\<close> minus its
  projection on \<open>w\<close> (\<open>Gram-Schmidt-orthogonalized original tangent against the new normal\<close>).\<close>

definition GramSchmidt :: "Vector3f \<Rightarrow> Vector3f \<Rightarrow> Vector3f" where
  "GramSchmidt v w = vsub v (vscale (Dot v w) w)"

text \<open>Modelled from the spec: \<^verbatim>\<open>Frame\<close> (\<^verbatim>\<open>pbrt/util/vecmath.h\<close>): three axes, and
  \<^verbatim>\<open>FromLocal\<close> turning local coordinates into a combination of the axes (\<open>rotate that
  vector into world space using the frame\<close>).\<close>

datatype Frame = Frame Vector3f Vector3f Vector3f

fun FromLocal :: "Frame \<Rightarrow> Vector3f \<Rightarrow> Vector3f" where
  "FromLocal (Frame fx fy fz) (a1, a2, a3) =
     vadd (vadd (vscale a1 fx) (vscale a2 fy)) (vscale a3 fz)"

section \<open>Spectra, wavelengths and textures\<close>

text \<open>Modelled from the spec: \<^verbatim>\<open>SampledSpectrum\<close> (\<^verbatim>\<open>pbrt/util/spectrum.h\<close>, not among the
  sources): one value per wavelength sample, indexed by the sample number. The constructor
  \<^verbatim>\<open>SampledSpectrum(c)\<close> sets every sample to \<open>c\<close>; arithmetic, \<^verbatim>\<open>Sqrt\<close>, \<^verbatim>\<open>Clamp\<close> and
  \<^verbatim>\<open>ClampZero\<close> act on each sample.\<close>

type_synonym SampledSpectrum = "nat \<Rightarrow> Float"

text \<open>Modelled from the spec: \<^verbatim>\<open>SampledSpectrum(c)\<close>, the spectrum whose samples all are \<open>c\<close>.\<close>

definition SampledSpectrum :: "Float \<Rightarrow> SampledSpectrum" where
  "SampledSpectrum c = (\<lambda>i. c)"

text \<open>Modelled from the spec: the scalar \<^verbatim>\<open>Clamp(v, low, high)\<close> of \<^verbatim>\<open>pbrt/util/math.h\<close>
  (\<open>clamp reflectance to [0,1] and roughness-angle parameter to [0,90]\<close>).\<close>

definition Clamp :: "Float \<Rightarrow> Float \<Rightarrow> Float \<Rightarrow> Float" where
  "Clamp v low high = (if v < low then low else if v > high then high else v)"

text \<open>Modelled from the spec: \<^verbatim>\<open>Clamp\<close> on a \<^verbatim>\<open>SampledSpectrum\<close>, sample by sample.\<close>

definition ClampS :: "SampledSpectrum \<Rightarrow> Float \<Rightarrow> Float \<Rightarrow> SampledSpectrum" where
  "ClampS s low high = (\<lambda>i. Clamp (s i) low high)"

text \<open>Modelled from the spec: \<^verbatim>\<open>ClampZero\<close> on a \<^verbatim>\<open>SampledSpectrum\<close> (\<open>clamp\<ge>0\<close>,
  \<open>clamped non-negative\<close>): every sample is raised to at least 0.\<close>

definition ClampZero :: "SampledSpectrum \<Rightarrow> SampledSpectrum" where
  "ClampZero s = (\<lambda>i. max 0 (s i))"

text \<open>Modelled from the spec: \<^verbatim>\<open>operator*\<close> of a scalar and a \<^verbatim>\<open>SampledSpectrum\<close>
  (\<^verbatim>\<open>pbrt/util/spectrum.h\<close>), sample by sample.\<close>

definition smul :: "Float \<Rightarrow> SampledSpectrum \<Rightarrow> SampledSpectrum" where
  "smul c s = (\<lambda>i. c * s i)"

subsection \<open>Rounded arithmetic\<close>

text \<open>
  Where a property of the code depends on the rounding of \<^verbatim>\<open>Float\<close> arithmetic, the
  rounding is written out: the reflectance inversion of \<^verbatim>\<open>ConductorMaterial::GetBSDF\<close>
  below rounds every operation. A \<^verbatim>\<open>Float\<close> is a binary floating-point number with \<open>p\<close>
  fraction bits (23 for the C++ \<^verbatim>\<open>float\<close>, 52 for \<^verbatim>\<open>double\<close>), and an operation returns the
  representable number nearest to the exact result, a tie going to the one whose last
  fraction bit is 0. The exponent is not bounded here: the results that occur in the
  inversion of reflectances in \<open>[0, 1)\<close> are neither subnormal nor too large. A result that
  is not a finite number (a NaN or an infinity) is not a value of the model but an outcome
  of the call that produces it.
\<close>

text \<open>The integer nearest to \<open>x\<close>; half-way between two integers, the even one.\<close>

definition round_to_nearest_even :: "real \<Rightarrow> int" where
  "round_to_nearest_even x =
     (let f = \<lfloor>x\<rfloor>; d = x - of_int f
      in if d < 1 / 2 then f
         else if d > 1 / 2 then f + 1
         else if even f then f else f + 1)"

text \<open>The number with \<open>p\<close> fraction bits nearest to \<open>x\<close>: with \<open>2 ^ e \<le> |x| < 2 ^ (e + 1)\<close>
  the representable numbers around \<open>x\<close> are the integer multiples of \<open>2 ^ (e - p)\<close>.\<close>

definition round_Float :: "nat \<Rightarrow> real \<Rightarrow> Float" where
  "round_Float p x =
     (if x = 0 then 0
      else
        (let e = \<lfloor>log 2 \<bar>x\<bar>\<rfloor>;
             u = 2 powr (of_int e - real p)
         in sgn x * of_int (round_to_nearest_even (\<bar>x\<bar> / u)) * u))"

text \<open>Modelled from the spec: \<^verbatim>\<open>Sqrt\<close> on a \<^verbatim>\<open>SampledSpectrum\<close> (\<^verbatim>\<open>pbrt/util/spectrum.h\<close>,
  not among the sources): the rounded square root of each sample. It is called on
  non-negative samples only (a negative sample gives NaN in C++).\<close>

definition Sqrt :: "nat \<Rightarrow> SampledSpectrum \<Rightarrow> SampledSpectrum" where
  "Sqrt p s = (\<lambda>i. round_Float p (sqrt (s i)))"

text \<open>Modelled from the spec: \<^verbatim>\<open>operator*\<close> of a scalar and a \<^verbatim>\<open>SampledSpectrum\<close>
  (\<^verbatim>\<open>pbrt/util/spectrum.h\<close>), sample by sample, with the product rounded.\<close>

definition smul_rounded :: "nat \<Rightarrow> Float \<Rightarrow> SampledSpectrum \<Rightarrow> SampledSpectrum" where
  "smul_rounded p c s = (\<lambda>i. round_Float p (c * s i))"

text \<open>Modelled from the spec: \<^verbatim>\<open>operator-\<close> of two \<^verbatim>\<open>SampledSpectrum\<close> values
  (\<^verbatim>\<open>pbrt/util/spectrum.h\<close>), sample by sample, with the difference rounded.\<close>

definition ssub :: "nat \<Rightarrow> SampledSpectrum \<Rightarrow> SampledSpectrum \<Rightarrow> SampledSpectrum" where
  "ssub p s t = (\<lambda>i. round_Float p (s i - t i))"

text \<open>Modelled from the spec: \<^verbatim>\<open>operator/\<close> of two \<^verbatim>\<open>SampledSpectrum\<close> values
  (\<^verbatim>\<open>pbrt/util/spectrum.h\<close>), sample by sample, with the quotient rounded. It is called
  on non-zero divisors only (a zero divisor gives an infinity or NaN in C++).\<close>

definition sdiv :: "nat \<Rightarrow> SampledSpectrum \<Rightarrow> SampledSpectrum \<Rightarrow> SampledSpectrum" where
  "sdiv p s t = (\<lambda>i. round_Float p (s i / t i))"

text \<open>Modelled from the spec: \<^verbatim>\<open>SampledWavelengths\<close> (\<^verbatim>\<open>pbrt/util/spectrum.h\<close>): the
  \<open>wavelength array\<close> with the sampling density of each wavelength. \<^verbatim>\<open>lambda[0]\<close> is the
  first wavelength. Its mutator \<^verbatim>\<open>TerminateSecondary\<close> is a parameter of the model (see
  \<open>Env\<close> below).\<close>

record SampledWavelengths =
  lambda :: "nat \<Rightarrow> Float"
  pdf :: "nat \<Rightarrow> Float"

text \<open>Modelled from the spec: \<^verbatim>\<open>Spectrum\<close> (\<^verbatim>\<open>pbrt/util/spectrum.h\<close>), a tagged pointer
  over the spectrum classes. \<^verbatim>\<open>materials.h\<close> only asks whether the tag is
  \<^verbatim>\<open>ConstantSpectrum\<close> and evaluates the spectrum at a wavelength, so every other class
  is one constructor holding its evaluation function.\<close>

datatype Spectrum = ConstantSpectrum Float | NonConstantSpectrum "Float \<Rightarrow> Float"

fun Is_ConstantSpectrum :: "Spectrum \<Rightarrow> bool" where
  "Is_ConstantSpectrum (ConstantSpectrum c) = True"
| "Is_ConstantSpectrum (NonConstantSpectrum f) = False"

fun Spectrum_eval :: "Spectrum \<Rightarrow> Float \<Rightarrow> Float" where
  "Spectrum_eval (ConstantSpectrum c) l = c"
| "Spectrum_eval (NonConstantSpectrum f) l = f l"

text \<open>Modelled from the spec: the handles \<^verbatim>\<open>FloatTexture\<close> and \<^verbatim>\<open>SpectrumTexture\<close>
  (\<^verbatim>\<open>pbrt/base/texture.h\<close>, not among the sources) are nullable pointers: \<open>None\<close> is
  \<^verbatim>\<open>nullptr\<close>, \<open>Some t\<close> refers to texture \<open>t\<close>. An \<^verbatim>\<open>Image\<close> (\<^verbatim>\<open>pbrt/util/image.h\<close>) is
  represented by its bilinear lookup \<^verbatim>\<open>BilerpChannel(uv, channel, wrap)\<close>
  (\<open>bilinearSample(uv, channel, wrapMode) -> scalar\<close>) under the only wrap mode used here,
  \<^verbatim>\<open>Repeat\<close>. The subsurface table and the measured data are opaque.\<close>

type_synonym FloatTexture = "nat option"
type_synonym SpectrumTexture = "nat option"
type_synonym Image = "Point2f \<Rightarrow> nat \<Rightarrow> Float"

typedecl BSSRDFTable
typedecl MeasuredBRDF

section \<open>Evaluation contexts\<close>

text \<open>Modelled from the spec: \<^verbatim>\<open>TextureEvalContext\<close> (\<^verbatim>\<open>pbrt/textures.h\<close>, not among the
  sources), the \<open>plain texture context (position + derivatives + UV + derivatives + face
  index)\<close>, with its fields in the order of the constructor call in
  \<^verbatim>\<open>BumpEvalContext::operator TextureEvalContext\<close>. The three records after it are those of
  \<^verbatim>\<open>materials.h\<close>: \<^verbatim>\<open>MaterialEvalContext\<close>, which extends it, the anonymous struct
  \<^verbatim>\<open>shading\<close> of \<^verbatim>\<open>BumpEvalContext\<close>, and \<^verbatim>\<open>BumpEvalContext\<close>.\<close>

record TextureEvalContext =
  p :: Point3f
  dpdx :: Vector3f
  dpdy :: Vector3f
  uv :: Point2f
  dudx :: Float
  dudy :: Float
  dvdx :: Float
  dvdy :: Float
  faceIndex :: int

record MaterialEvalContext = TextureEvalContext +
  wo :: Vector3f
  n :: Normal3f
  ns :: Normal3f
  dpdus :: Vector3f

record Shading =
  n :: Normal3f
  dpdu :: Vector3f
  dpdv :: Vector3f
  dndu :: Normal3f
  dndv :: Normal3f

record BumpEvalContext =
  p :: Point3f
  uv :: Point2f
  shading :: Shading
  dudx :: Float
  dudy :: Float
  dvdx :: Float
  dvdy :: Float
  dpdx :: Vector3f
  dpdy :: Vector3f
  faceIndex :: int

text \<open>\<^verbatim>\<open>BumpEvalContext::operator TextureEvalContext\<close>.\<close>

definition BumpEvalContext_to_TextureEvalContext :: "BumpEvalContext \<Rightarrow> TextureEvalContext" where
  "BumpEvalContext_to_TextureEvalContext ctx =
     \<lparr> TextureEvalContext.p = BumpEvalContext.p ctx,
       TextureEvalContext.dpdx = BumpEvalContext.dpdx ctx,
       TextureEvalContext.dpdy = BumpEvalContext.dpdy ctx,
       TextureEvalContext.uv = BumpEvalContext.uv ctx,
       TextureEvalContext.dudx = BumpEvalContext.dudx ctx,
       TextureEvalContext.dudy = BumpEvalContext.dudy ctx,
       TextureEvalContext.dvdx = BumpEvalContext.dvdx ctx,
       TextureEvalContext.dvdy = BumpEvalContext.dvdy ctx,
       TextureEvalContext.faceIndex = BumpEvalContext.faceIndex ctx \<rparr>"

text \<open>
  The \<^verbatim>\<open>TextureEvaluator\<close> template parameter: its capability query and its two call
  operators (a float texture at a context; a spectrum texture at a context and wavelengths).
\<close>

record TextureEvaluator =
  CanEvaluate :: "FloatTexture list \<Rightarrow> SpectrumTexture list \<Rightarrow> bool"
  evalFloat :: "FloatTexture \<Rightarrow> TextureEvalContext \<Rightarrow> Float"
  evalSpectrum :: "SpectrumTexture \<Rightarrow> TextureEvalContext \<Rightarrow> SampledWavelengths \<Rightarrow> SampledSpectrum"

section \<open>Scattering functions\<close>

text \<open>Modelled from the spec: the scattering-function classes (\<^verbatim>\<open>pbrt/bxdfs.h\<close> and
  \<^verbatim>\<open>pbrt/bsdf.h\<close>, not among the sources) are external collaborators that \<open>the core
  constructs and returns\<close>. A value of one of them is represented by the arguments its
  constructor was called with, in the order of the call: \<^verbatim>\<open>DielectricBxDF(eta, distrib)\<close>, \<^verbatim>\<open>ThinDielectricBxDF(eta)\<close>,
  \<^verbatim>\<open>HairBxDF(h, eta, sig_a, beta_m, beta_n, alpha)\<close>, \<^verbatim>\<open>RoughDiffuseBxDF(R, T, sigma)\<close>,
  \<^verbatim>\<open>ConductorBxDF(distrib, eta, k)\<close>, and \<^verbatim>\<open>BSDF(ns, dpdus, bxdf)\<close>. The selectors
  read an argument back.
\<close>

datatype TrowbridgeReitzDistribution = TrowbridgeReitzDistribution Float Float

datatype BxDF =
    DielectricBxDF (DielectricBxDF_eta: Float) (DielectricBxDF_distrib: TrowbridgeReitzDistribution)
  | ThinDielectricBxDF (ThinDielectricBxDF_eta: Float)
  | HairBxDF (HairBxDF_h: Float) (HairBxDF_eta: Float) (HairBxDF_sigma_a: SampledSpectrum)
      (HairBxDF_beta_m: Float) (HairBxDF_beta_n: Float) (HairBxDF_alpha: Float)
  | RoughDiffuseBxDF (RoughDiffuseBxDF_R: SampledSpectrum) (RoughDiffuseBxDF_T: SampledSpectrum)
      (RoughDiffuseBxDF_sigma: Float)
  | ConductorBxDF (ConductorBxDF_distrib: TrowbridgeReitzDistribution)
      (ConductorBxDF_eta: SampledSpectrum) (ConductorBxDF_k: SampledSpectrum)

datatype BSDF = BSDF (BSDF_ns: Normal3f) (BSDF_dpdus: Vector3f) (BSDF_bxdf: BxDF)

text \<open>Modelled from the spec: \<^verbatim>\<open>TabulatedBSSRDF\<close> (\<^verbatim>\<open>pbrt/bssrdf.h\<close>, not among the
  sources), by the arguments \<^verbatim>\<open>(po, ns, wo, eta, sig_a, sig_s, table)\<close> of its
  constructor.\<close>

datatype TabulatedBSSRDF =
  TabulatedBSSRDF Point3f Normal3f Vector3f Float SampledSpectrum SampledSpectrum BSSRDFTable

section \<open>The material variants\<close>

text \<open>One record per material class, holding its private members under their names.\<close>

record DielectricMaterial =
  displacement :: FloatTexture
  normalMap :: "Image option"
  uRoughness :: FloatTexture
  vRoughness :: FloatTexture
  eta :: Spectrum
  remapRoughness :: bool

record ThinDielectricMaterial =
  displacement :: FloatTexture
  normalMap :: "Image option"
  eta :: Spectrum

record HairMaterial =
  sigma_a :: SpectrumTexture
  color :: SpectrumTexture
  eumelanin :: FloatTexture
  pheomelanin :: FloatTexture
  eta :: FloatTexture
  beta_m :: FloatTexture
  beta_n :: FloatTexture
  alpha :: FloatTexture

record DiffuseMaterial =
  displacement :: FloatTexture
  normalMap :: "Image option"
  reflectance :: SpectrumTexture
  sigma :: FloatTexture

record ConductorMaterial =
  displacement :: FloatTexture
  normalMap :: "Image option"
  eta :: SpectrumTexture
  k :: SpectrumTexture
  reflectance :: SpectrumTexture
  uRoughness :: FloatTexture
  vRoughness :: FloatTexture
  remapRoughness :: bool

record CoatedDiffuseMaterial =
  displacement :: FloatTexture
  normalMap :: "Image option"
  reflectance :: SpectrumTexture
  albedo :: SpectrumTexture
  uRoughness :: FloatTexture
  vRoughness :: FloatTexture
  thickness :: FloatTexture
  g :: FloatTexture
  eta :: Spectrum
  remapRoughness :: bool
  maxDepth :: int
  nSamples :: int

record CoatedConductorMaterial =
  displacement :: FloatTexture
  normalMap :: "Image option"
  interfaceURoughness :: FloatTexture
  interfaceVRoughness :: FloatTexture
  thickness :: FloatTexture
  interfaceEta :: Spectrum
  g :: FloatTexture
  albedo :: SpectrumTexture
  conductorURoughness :: FloatTexture
  conductorVRoughness :: FloatTexture
  conductorEta :: SpectrumTexture
  k :: SpectrumTexture
  reflectance :: SpectrumTexture
  remapRoughness :: bool
  maxDepth :: int
  nSamples :: int

record SubsurfaceMaterial =
  displacement :: FloatTexture
  normalMap :: "Image option"
  sigma_a :: SpectrumTexture
  sigma_s :: SpectrumTexture
  reflectance :: SpectrumTexture
  mfp :: SpectrumTexture
  scale :: Float
  eta :: Float
  uRoughness :: FloatTexture
  vRoughness :: FloatTexture
  remapRoughness :: bool
  table :: BSSRDFTable

record DiffuseTransmissionMaterial =
  displacement :: FloatTexture
  normalMap :: "Image option"
  reflectance :: SpectrumTexture
  transmittance :: SpectrumTexture
  sigma :: FloatTexture
  scale :: Float

record MeasuredMaterial =
  displacement :: FloatTexture
  normalMap :: "Image option"
  brdf :: "MeasuredBRDF option"

text \<open>\<^verbatim>\<open>MixMaterial\<close>: the blend-amount texture and the array \<^verbatim>\<open>materials[2]\<close> of
  sub-material handles, as the pair \<open>(materials[0], materials[1])\<close>.\<close>

datatype 'm MixMaterial = MixMaterial (amount: FloatTexture) (materials: "'m \<times> 'm")

text \<open>Modelled from the spec: the \<^verbatim>\<open>Material\<close> handle (\<^verbatim>\<open>pbrt/base/material.h\<close>, not among
  the sources), \<open>an opaque material handle holding a runtime tag identifying which variant
  it is\<close>, over the eleven material classes of \<^verbatim>\<open>materials.h\<close>. Its \<^verbatim>\<open>Dispatch\<close> is a
  case distinction on the constructor.\<close>

datatype Material =
    CoatedDiffuse CoatedDiffuseMaterial
  | CoatedConductor CoatedConductorMaterial
  | Conductor ConductorMaterial
  | Dielectric DielectricMaterial
  | Diffuse DiffuseMaterial
  | DiffuseTransmission DiffuseTransmissionMaterial
  | Hair HairMaterial
  | Measured MeasuredMaterial
  | Subsurface SubsurfaceMaterial
  | ThinDielectric ThinDielectricMaterial
  | Mix "Material MixMaterial"

section \<open>Build configuration, collaborators and errors\<close>

text \<open>
  What \<^verbatim>\<open>materials.h\<close> takes from outside is a parameter of the model:
  whether the code is compiled for the GPU (\<^verbatim>\<open>PBRT_IS_GPU_CODE\<close>), whether \<^verbatim>\<open>DCHECK\<close> is
  compiled in (a debug build), and the functions it calls that are defined elsewhere:
  \<^verbatim>\<open>TrowbridgeReitzDistribution::RoughnessToAlpha\<close>, \<^verbatim>\<open>SampledWavelengths::TerminateSecondary\<close>,
  \<^verbatim>\<open>HashFloat\<close>, \<^verbatim>\<open>HairBxDF::SigmaAFromReflectance\<close>,
  \<^verbatim>\<open>HairBxDF::SigmaAFromConcentration(ce, cp).Sample(lambda)\<close>, \<^verbatim>\<open>SubsurfaceFromDiffuse\<close>
  (its two output parameters as a pair) and \<^verbatim>\<open>Frame::FromZ\<close>; and the two constants of
  \<^verbatim>\<open>pbrt.h\<close> that the rounded arithmetic needs: the number \<^verbatim>\<open>NSpectrumSamples\<close> of samples
  of a \<^verbatim>\<open>SampledSpectrum\<close>, and the number of fraction bits of the type \<^verbatim>\<open>Float\<close>.
\<close>

record Env =
  PBRT_IS_GPU_CODE :: bool
  DCHECK_enabled :: bool
  RoughnessToAlpha :: "Float \<Rightarrow> Float"
  TerminateSecondary :: "SampledWavelengths \<Rightarrow> SampledWavelengths"
  HashFloat :: "Point3f \<Rightarrow> Vector3f \<Rightarrow> Material \<Rightarrow> Material \<Rightarrow> Float"
  SigmaAFromReflectance :: "SampledSpectrum \<Rightarrow> Float \<Rightarrow> SampledWavelengths \<Rightarrow> SampledSpectrum"
  SigmaAFromConcentration :: "Float \<Rightarrow> Float \<Rightarrow> SampledWavelengths \<Rightarrow> SampledSpectrum"
  SubsurfaceFromDiffuse ::
    "BSSRDFTable \<Rightarrow> SampledSpectrum \<Rightarrow> SampledSpectrum \<Rightarrow> SampledSpectrum \<times> SampledSpectrum"
  FromZ :: "Normal3f \<Rightarrow> Frame"
  NSpectrumSamples :: nat
  Float_fraction_bits :: nat

text \<open>
  The ways a call ends without a result: \<^verbatim>\<open>LOG_FATAL\<close> with its message, a failed
  \<^verbatim>\<open>CHECK\<close> or \<^verbatim>\<open>DCHECK\<close> with the text of its condition, the dereference of a null
  \<^verbatim>\<open>normalMap\<close>, and a rounded computation that produces a NaN or an infinity.
\<close>

datatype error = LogFatal string | CheckFailed string | NullDereference | NonFiniteFloat

section \<open>Dielectric materials\<close>

text \<open>\<^verbatim>\<open>DielectricMaterial::GetBSDF\<close>. The reference parameter \<^verbatim>\<open>lambda\<close> is returned with
  the scattering function.\<close>

definition DielectricMaterial_GetBSDF ::
  "Env \<Rightarrow> TextureEvaluator \<Rightarrow> DielectricMaterial \<Rightarrow> MaterialEvalContext \<Rightarrow>
   SampledWavelengths \<Rightarrow> BSDF \<times> SampledWavelengths" where
  "DielectricMaterial_GetBSDF E texEval m ctx lam =
     (let sampledEta0 = Spectrum_eval (DielectricMaterial.eta m) (lambda lam 0);
          lam' = (if \<not> Is_ConstantSpectrum (DielectricMaterial.eta m)
                  then TerminateSecondary E lam else lam);
          sampledEta = (if sampledEta0 = 0 then 1 else sampledEta0);
          urough0 = evalFloat texEval (DielectricMaterial.uRoughness m)
                      (TextureEvalContext.truncate ctx);
          vrough0 = evalFloat texEval (DielectricMaterial.vRoughness m)
                      (TextureEvalContext.truncate ctx);
          urough = (if DielectricMaterial.remapRoughness m
                    then RoughnessToAlpha E urough0 else urough0);
          vrough = (if DielectricMaterial.remapRoughness m
                    then RoughnessToAlpha E vrough0 else vrough0);
          distrib = TrowbridgeReitzDistribution urough vrough
      in (BSDF (MaterialEvalContext.ns ctx) (MaterialEvalContext.dpdus ctx)
            (DielectricBxDF sampledEta distrib), lam'))"

text \<open>\<^verbatim>\<open>ThinDielectricMaterial::GetBSDF\<close>.\<close>

definition ThinDielectricMaterial_GetBSDF ::
  "Env \<Rightarrow> TextureEvaluator \<Rightarrow> ThinDielectricMaterial \<Rightarrow> MaterialEvalContext \<Rightarrow>
   SampledWavelengths \<Rightarrow> BSDF \<times> SampledWavelengths" where
  "ThinDielectricMaterial_GetBSDF E texEval m ctx lam =
     (let sampledEta0 = Spectrum_eval (ThinDielectricMaterial.eta m) (lambda lam 0);
          lam' = (if \<not> Is_ConstantSpectrum (ThinDielectricMaterial.eta m)
                  then TerminateSecondary E lam else lam);
          sampledEta = (if sampledEta0 = 0 then 1 else sampledEta0)
      in (BSDF (MaterialEvalContext.ns ctx) (MaterialEvalContext.dpdus ctx)
            (ThinDielectricBxDF sampledEta), lam'))"

section \<open>Bump and normal mapping\<close>

text \<open>\<^verbatim>\<open>Bump\<close>. The output parameters \<^verbatim>\<open>*dpdu\<close> and \<^verbatim>\<open>*dpdv\<close> are returned as a pair;
  the parameters \<^verbatim>\<open>displacement\<close> and \<^verbatim>\<open>normalMap\<close> are \<open>disp\<close> and \<open>nmap\<close>.
  A \<^verbatim>\<open>DCHECK\<close> fails only in a build that compiles it in; without the first check the
  \<^verbatim>\<open>else\<close> branch dereferences a null \<^verbatim>\<open>normalMap\<close>.\<close>

definition Bump ::
  "Env \<Rightarrow> TextureEvaluator \<Rightarrow> FloatTexture \<Rightarrow> Image option \<Rightarrow> BumpEvalContext \<Rightarrow>
   error + (Vector3f \<times> Vector3f)" where
  "Bump E texEval disp nmap ctx =
     (if DCHECK_enabled E \<and> disp = None \<and> nmap = None
      then Inl (CheckFailed ''displacement != nullptr || normalMap != nullptr'')
      else if disp \<noteq> None then
        (if DCHECK_enabled E \<and> \<not> CanEvaluate texEval [disp] []
         then Inl (CheckFailed ''texEval.CanEvaluate({displacement}, {})'')
         else
           (let shiftedCtx0 = BumpEvalContext_to_TextureEvalContext ctx;
                du0 = 0.5 * (\<bar>BumpEvalContext.dudx ctx\<bar> + \<bar>BumpEvalContext.dudy ctx\<bar>);
                du = (if du0 = 0 then 0.0005 else du0);
                shiftedCtx1 = shiftedCtx0
                  \<lparr> TextureEvalContext.p :=
                      vadd (BumpEvalContext.p ctx)
                        (vscale du (Shading.dpdu (shading ctx))),
                    TextureEvalContext.uv :=
                      (fst (BumpEvalContext.uv ctx) + du, snd (BumpEvalContext.uv ctx) + 0) \<rparr>;
                uDisplace = evalFloat texEval disp shiftedCtx1;
                dv0 = 0.5 * (\<bar>BumpEvalContext.dvdx ctx\<bar> + \<bar>BumpEvalContext.dvdy ctx\<bar>);
                dv = (if dv0 = 0 then 0.0005 else dv0);
                shiftedCtx2 = shiftedCtx1
                  \<lparr> TextureEvalContext.p :=
                      vadd (BumpEvalContext.p ctx)
                        (vscale dv (Shading.dpdv (shading ctx))),
                    TextureEvalContext.uv :=
                      (fst (BumpEvalContext.uv ctx) + 0, snd (BumpEvalContext.uv ctx) + dv) \<rparr>;
                vDisplace = evalFloat texEval disp shiftedCtx2;
                displace = evalFloat texEval disp
                             (BumpEvalContext_to_TextureEvalContext ctx)
            in Inr
                 (vadd
                    (vadd (Shading.dpdu (shading ctx))
                       (vscale ((uDisplace - displace) / du) (Shading.n (shading ctx))))
                    (vscale displace (Shading.dndu (shading ctx))),
                  vadd
                    (vadd (Shading.dpdv (shading ctx))
                       (vscale ((vDisplace - displace) / dv) (Shading.n (shading ctx))))
                    (vscale displace (Shading.dndv (shading ctx))))))
      else
        (case nmap of
           None \<Rightarrow> Inl NullDereference
         | Some img \<Rightarrow>
           (let uv' = (fst (BumpEvalContext.uv ctx), 1 - snd (BumpEvalContext.uv ctx));
                ns0 = (2 * img uv' 0 - 1, 2 * img uv' 1 - 1, 2 * img uv' 2 - 1);
                ns1 = Normalize ns0;
                frame = FromZ E (Shading.n (shading ctx));
                ns2 = FromLocal frame ns1;
                ulen = Length (Shading.dpdu (shading ctx));
                vlen = Length (Shading.dpdv (shading ctx));
                dpdu' = vscale ulen (Normalize (GramSchmidt (Shading.dpdu (shading ctx)) ns2));
                dpdv' = vscale vlen (Normalize (Cross ns2 dpdu'))
            in Inr (dpdu', dpdv'))))"

section \<open>Mix material\<close>

text \<open>\<^verbatim>\<open>MixMaterial::ChooseMaterial\<close>.\<close>

definition MixMaterial_ChooseMaterial ::
  "Env \<Rightarrow> TextureEvaluator \<Rightarrow> Material MixMaterial \<Rightarrow> MaterialEvalContext \<Rightarrow> Material" where
  "MixMaterial_ChooseMaterial E texEval m ctx =
     (let amt = evalFloat texEval (amount m) (TextureEvalContext.truncate ctx)
      in if amt \<le> 0 then fst (materials m)
         else if amt \<ge> 1 then snd (materials m)
         else
           (let u = HashFloat E (TextureEvalContext.p ctx) (MaterialEvalContext.wo ctx)
                      (fst (materials m)) (snd (materials m))
            in if amt < u then fst (materials m) else snd (materials m)))"

text \<open>\<^verbatim>\<open>MixMaterial::GetBSDF\<close>: \<^verbatim>\<open>LOG_FATAL\<close> unless compiled for the GPU, where the empty
  \<^verbatim>\<open>BSDF\<close> is returned (\<open>None\<close>).\<close>

definition MixMaterial_GetBSDF ::
  "Env \<Rightarrow> TextureEvaluator \<Rightarrow> Material MixMaterial \<Rightarrow> MaterialEvalContext \<Rightarrow>
   SampledWavelengths \<Rightarrow> error + (BSDF option \<times> SampledWavelengths)" where
  "MixMaterial_GetBSDF E texEval m ctx lam =
     (if \<not> PBRT_IS_GPU_CODE E
      then Inl (LogFatal ''MixMaterial::GetBSDF() shouldn't be called'')
      else Inr (None, lam))"

text \<open>\<^verbatim>\<open>MixMaterial::GetDisplacement\<close> and \<^verbatim>\<open>MixMaterial::GetNormalMap\<close>.\<close>

definition MixMaterial_GetDisplacement :: "Env \<Rightarrow> Material MixMaterial \<Rightarrow> error + FloatTexture" where
  "MixMaterial_GetDisplacement E m =
     (if \<not> PBRT_IS_GPU_CODE E then Inl (LogFatal ''Shouldn't be called'') else Inr None)"

definition MixMaterial_GetNormalMap :: "Env \<Rightarrow> Material MixMaterial \<Rightarrow> error + Image option" where
  "MixMaterial_GetNormalMap E m =
     (if \<not> PBRT_IS_GPU_CODE E then Inl (LogFatal ''Shouldn't be called'') else Inr None)"

section \<open>Hair, diffuse and conductor materials\<close>

text \<open>\<^verbatim>\<open>HairMaterial::GetBSDF\<close>. \<^verbatim>\<open>CHECK\<close> is compiled into every build. The call leaves
  \<^verbatim>\<open>lambda\<close> as it is, so only the scattering function is returned.\<close>

definition HairMaterial_GetBSDF ::
  "Env \<Rightarrow> TextureEvaluator \<Rightarrow> HairMaterial \<Rightarrow> MaterialEvalContext \<Rightarrow>
   SampledWavelengths \<Rightarrow> error + BSDF" where
  "HairMaterial_GetBSDF E texEval m ctx lam =
     (let tctx = TextureEvalContext.truncate ctx;
          bm = max (1 / 100) (evalFloat texEval (beta_m m) tctx);
          bn = max (1 / 100) (evalFloat texEval (beta_n m) tctx);
          a = evalFloat texEval (alpha m) tctx;
          e = evalFloat texEval (HairMaterial.eta m) tctx;
          sig_a =
            (if HairMaterial.sigma_a m \<noteq> None
             then Inr (ClampZero (evalSpectrum texEval (HairMaterial.sigma_a m) tctx lam))
             else if color m \<noteq> None
             then Inr (SigmaAFromReflectance E
                         (ClampS (evalSpectrum texEval (color m) tctx lam) 0 1) bn lam)
             else if eumelanin m = None \<and> pheomelanin m = None
             then Inl (CheckFailed ''eumelanin || pheomelanin'')
             else Inr (SigmaAFromConcentration E
                         (max 0 (if eumelanin m \<noteq> None
                                 then evalFloat texEval (eumelanin m) tctx else 0))
                         (max 0 (if pheomelanin m \<noteq> None
                                 then evalFloat texEval (pheomelanin m) tctx else 0))
                         lam));
          h = - 1 + 2 * snd (TextureEvalContext.uv ctx)
      in case sig_a of
           Inl err \<Rightarrow> Inl err
         | Inr sa \<Rightarrow>
             Inr (BSDF (MaterialEvalContext.ns ctx) (MaterialEvalContext.dpdus ctx)
                    (HairBxDF h e sa bm bn a)))"

text \<open>\<^verbatim>\<open>DiffuseMaterial::GetBSDF\<close>.\<close>

definition DiffuseMaterial_GetBSDF ::
  "Env \<Rightarrow> TextureEvaluator \<Rightarrow> DiffuseMaterial \<Rightarrow> MaterialEvalContext \<Rightarrow>
   SampledWavelengths \<Rightarrow> BSDF" where
  "DiffuseMaterial_GetBSDF E texEval m ctx lam =
     (let tctx = TextureEvalContext.truncate ctx;
          r = ClampS (evalSpectrum texEval (DiffuseMaterial.reflectance m) tctx lam) 0 1;
          sig = Clamp (evalFloat texEval (DiffuseMaterial.sigma m) tctx) 0 90
      in BSDF (MaterialEvalContext.ns ctx) (MaterialEvalContext.dpdus ctx)
           (RoughDiffuseBxDF r (SampledSpectrum 0) sig))"

text \<open>\<^verbatim>\<open>DiffuseTransmissionMaterial::GetBSDF\<close>.\<close>

definition DiffuseTransmissionMaterial_GetBSDF ::
  "Env \<Rightarrow> TextureEvaluator \<Rightarrow> DiffuseTransmissionMaterial \<Rightarrow> MaterialEvalContext \<Rightarrow>
   SampledWavelengths \<Rightarrow> BSDF" where
  "DiffuseTransmissionMaterial_GetBSDF E texEval m ctx lam =
     (let tctx = TextureEvalContext.truncate ctx;
          r = ClampS (smul (DiffuseTransmissionMaterial.scale m)
                 (evalSpectrum texEval (DiffuseTransmissionMaterial.reflectance m) tctx lam)) 0 1;
          t = ClampS (smul (DiffuseTransmissionMaterial.scale m)
                 (evalSpectrum texEval (transmittance m) tctx lam)) 0 1;
          s = evalFloat texEval (DiffuseTransmissionMaterial.sigma m) tctx
      in BSDF (MaterialEvalContext.ns ctx) (MaterialEvalContext.dpdus ctx)
           (RoughDiffuseBxDF r t s))"

text \<open>\<^verbatim>\<open>ConductorMaterial::GetBSDF\<close>. The inversion
  \<^verbatim>\<open>2 * Sqrt(r) / Sqrt(ClampZero(SampledSpectrum(1) - r))\<close> is computed in rounded
  arithmetic. Among the \<^verbatim>\<open>NSpectrumSamples\<close> samples, a negative reflectance makes
  \<^verbatim>\<open>Sqrt(r)\<close> a NaN and a zero divisor makes the quotient an infinity or a NaN: the
  outcome is then \<open>NonFiniteFloat\<close> (the C++ builds the scattering function with that
  sample, unless a check inside the absent operators stops a debug build first).\<close>

definition ConductorMaterial_GetBSDF ::
  "Env \<Rightarrow> TextureEvaluator \<Rightarrow> ConductorMaterial \<Rightarrow> MaterialEvalContext \<Rightarrow>
   SampledWavelengths \<Rightarrow> error + BSDF" where
  "ConductorMaterial_GetBSDF E texEval m ctx lam =
     (let tctx = TextureEvalContext.truncate ctx;
          uRough0 = evalFloat texEval (ConductorMaterial.uRoughness m) tctx;
          vRough0 = evalFloat texEval (ConductorMaterial.vRoughness m) tctx;
          uRough = (if ConductorMaterial.remapRoughness m
                    then RoughnessToAlpha E uRough0 else uRough0);
          vRough = (if ConductorMaterial.remapRoughness m
                    then RoughnessToAlpha E vRough0 else vRough0);
          distrib = TrowbridgeReitzDistribution uRough vRough
      in if ConductorMaterial.eta m \<noteq> None
         then Inr (BSDF (MaterialEvalContext.ns ctx) (MaterialEvalContext.dpdus ctx)
                     (ConductorBxDF distrib
                        (evalSpectrum texEval (ConductorMaterial.eta m) tctx lam)
                        (evalSpectrum texEval (ConductorMaterial.k m) tctx lam)))
         else
           (let fb = Float_fraction_bits E;
                r = evalSpectrum texEval (ConductorMaterial.reflectance m) tctx lam;
                etas = SampledSpectrum 1;
                numerator = smul_rounded fb 2 (Sqrt fb r);
                divisor = Sqrt fb (ClampZero (ssub fb (SampledSpectrum 1) r))
            in if \<exists>i < NSpectrumSamples E. r i < 0 \<or> divisor i = 0
               then Inl NonFiniteFloat
               else Inr (BSDF (MaterialEvalContext.ns ctx) (MaterialEvalContext.dpdus ctx)
                           (ConductorBxDF distrib etas (sdiv fb numerator divisor)))))"

section \<open>Subsurface functions\<close>

text \<open>The \<^verbatim>\<open>GetBSSRDF\<close> member of each class. Ten classes declare \<^verbatim>\<open>BSSRDF = void\<close>; of
  these, nine have an empty body and \<^verbatim>\<open>MixMaterial\<close> logs a fatal error unless compiled for
  the GPU. None of them changes \<^verbatim>\<open>lambda\<close>.\<close>

definition DielectricMaterial_GetBSSRDF ::
  "Env \<Rightarrow> TextureEvaluator \<Rightarrow> DielectricMaterial \<Rightarrow> MaterialEvalContext \<Rightarrow>
   SampledWavelengths \<Rightarrow> error + unit" where
  "DielectricMaterial_GetBSSRDF E texEval m ctx lam = Inr ()"

definition ThinDielectricMaterial_GetBSSRDF ::
  "Env \<Rightarrow> TextureEvaluator \<Rightarrow> ThinDielectricMaterial \<Rightarrow> MaterialEvalContext \<Rightarrow>
   SampledWavelengths \<Rightarrow> error + unit" where
  "ThinDielectricMaterial_GetBSSRDF E texEval m ctx lam = Inr ()"

definition MixMaterial_GetBSSRDF ::
  "Env \<Rightarrow> TextureEvaluator \<Rightarrow> Material MixMaterial \<Rightarrow> MaterialEvalContext \<Rightarrow>
   SampledWavelengths \<Rightarrow> error + unit" where
  "MixMaterial_GetBSSRDF E texEval m ctx lam =
     (if \<not> PBRT_IS_GPU_CODE E then Inl (LogFatal ''Shouldn't be called'') else Inr ())"

definition HairMaterial_GetBSSRDF ::
  "Env \<Rightarrow> TextureEvaluator \<Rightarrow> HairMaterial \<Rightarrow> MaterialEvalContext \<Rightarrow>
   SampledWavelengths \<Rightarrow> error + unit" where
  "HairMaterial_GetBSSRDF E texEval m ctx lam = Inr ()"

definition DiffuseMaterial_GetBSSRDF ::
  "Env \<Rightarrow> TextureEvaluator \<Rightarrow> DiffuseMaterial \<Rightarrow> MaterialEvalContext \<Rightarrow>
   SampledWavelengths \<Rightarrow> error + unit" where
  "DiffuseMaterial_GetBSSRDF E texEval m ctx lam = Inr ()"

definition ConductorMaterial_GetBSSRDF ::
  "Env \<Rightarrow> TextureEvaluator \<Rightarrow> ConductorMaterial \<Rightarrow> MaterialEvalContext \<Rightarrow>
   SampledWavelengths \<Rightarrow> error + unit" where
  "ConductorMaterial_GetBSSRDF E texEval m ctx lam = Inr ()"

definition CoatedDiffuseMaterial_GetBSSRDF ::
  "Env \<Rightarrow> TextureEvaluator \<Rightarrow> CoatedDiffuseMaterial \<Rightarrow> MaterialEvalContext \<Rightarrow>
   SampledWavelengths \<Rightarrow> error + unit" where
  "CoatedDiffuseMaterial_GetBSSRDF E texEval m ctx lam = Inr ()"

definition CoatedConductorMaterial_GetBSSRDF ::
  "Env \<Rightarrow> TextureEvaluator \<Rightarrow> CoatedConductorMaterial \<Rightarrow> MaterialEvalContext \<Rightarrow>
   SampledWavelengths \<Rightarrow> error + unit" where
  "CoatedConductorMaterial_GetBSSRDF E texEval m ctx lam = Inr ()"

definition DiffuseTransmissionMaterial_GetBSSRDF ::
  "Env \<Rightarrow> TextureEvaluator \<Rightarrow> DiffuseTransmissionMaterial \<Rightarrow> MaterialEvalContext \<Rightarrow>
   SampledWavelengths \<Rightarrow> error + unit" where
  "DiffuseTransmissionMaterial_GetBSSRDF E texEval m ctx lam = Inr ()"

definition MeasuredMaterial_GetBSSRDF ::
  "Env \<Rightarrow> TextureEvaluator \<Rightarrow> MeasuredMaterial \<Rightarrow> MaterialEvalContext \<Rightarrow>
   SampledWavelengths \<Rightarrow> error + unit" where
  "MeasuredMaterial_GetBSSRDF E texEval m ctx lam = Inr ()"

text \<open>\<^verbatim>\<open>SubsurfaceMaterial::GetBSSRDF\<close>; the output parameter \<^verbatim>\<open>*bssrdf\<close> is the result.\<close>

definition SubsurfaceMaterial_GetBSSRDF ::
  "Env \<Rightarrow> TextureEvaluator \<Rightarrow> SubsurfaceMaterial \<Rightarrow> MaterialEvalContext \<Rightarrow>
   SampledWavelengths \<Rightarrow> error + TabulatedBSSRDF" where
  "SubsurfaceMaterial_GetBSSRDF E texEval m ctx lam =
     (let tctx = TextureEvalContext.truncate ctx;
          sigs =
            (if SubsurfaceMaterial.sigma_a m \<noteq> None \<and> sigma_s m \<noteq> None
             then Inr (ClampZero (smul (SubsurfaceMaterial.scale m)
                         (evalSpectrum texEval (SubsurfaceMaterial.sigma_a m) tctx lam)),
                       ClampZero (smul (SubsurfaceMaterial.scale m)
                         (evalSpectrum texEval (sigma_s m) tctx lam)))
             else if DCHECK_enabled E \<and>
                     (SubsurfaceMaterial.reflectance m = None \<or> mfp m = None)
             then Inl (CheckFailed ''reflectance && mfp'')
             else
               (let mfree = ClampZero (smul (SubsurfaceMaterial.scale m)
                              (evalSpectrum texEval (mfp m) tctx lam));
                    r = ClampS (evalSpectrum texEval (SubsurfaceMaterial.reflectance m) tctx lam) 0 1
                in Inr (SubsurfaceFromDiffuse E (table m) r mfree)))
      in case sigs of
           Inl err \<Rightarrow> Inl err
         | Inr sg \<Rightarrow>
             Inr (TabulatedBSSRDF (TextureEvalContext.p ctx) (MaterialEvalContext.ns ctx)
                    (MaterialEvalContext.wo ctx) (SubsurfaceMaterial.eta m)
                    (fst sg) (snd sg) (table m)))"

section \<open>Dispatch on the material handle\<close>

text \<open>\<^verbatim>\<open>Material::GetBSSRDF\<close>: for a class whose \<^verbatim>\<open>BSSRDF\<close> type is \<^verbatim>\<open>void\<close> the lambda
  returns \<^verbatim>\<open>nullptr\<close> without calling the class's member; otherwise it allocates the
  subsurface function, lets the class fill it in and returns it.\<close>

fun Material_GetBSSRDF ::
  "Env \<Rightarrow> TextureEvaluator \<Rightarrow> Material \<Rightarrow> MaterialEvalContext \<Rightarrow>
   SampledWavelengths \<Rightarrow> error + TabulatedBSSRDF option" where
  "Material_GetBSSRDF E texEval (Subsurface m) ctx lam =
     (case SubsurfaceMaterial_GetBSSRDF E texEval m ctx lam of
        Inl err \<Rightarrow> Inl err
      | Inr b \<Rightarrow> Inr (Some b))"
| "Material_GetBSSRDF E texEval (CoatedDiffuse m) ctx lam = Inr None"
| "Material_GetBSSRDF E texEval (CoatedConductor m) ctx lam = Inr None"
| "Material_GetBSSRDF E texEval (Conductor m) ctx lam = Inr None"
| "Material_GetBSSRDF E texEval (Dielectric m) ctx lam = Inr None"
| "Material_GetBSSRDF E texEval (Diffuse m) ctx lam = Inr None"
| "Material_GetBSSRDF E texEval (DiffuseTransmission m) ctx lam = Inr None"
| "Material_GetBSSRDF E texEval (Hair m) ctx lam = Inr None"
| "Material_GetBSSRDF E texEval (Measured m) ctx lam = Inr None"
| "Material_GetBSSRDF E texEval (ThinDielectric m) ctx lam = Inr None"
| "Material_GetBSSRDF E texEval (Mix m) ctx lam = Inr None"

text \<open>\<^verbatim>\<open>Material::HasSubsurfaceScattering\<close>, with each class's constant.\<close>

fun Material_HasSubsurfaceScattering :: "Material \<Rightarrow> bool" where
  "Material_HasSubsurfaceScattering (Subsurface m) = True"
| "Material_HasSubsurfaceScattering (CoatedDiffuse m) = False"
| "Material_HasSubsurfaceScattering (CoatedConductor m) = False"
| "Material_HasSubsurfaceScattering (Conductor m) = False"
| "Material_HasSubsurfaceScattering (Dielectric m) = False"
| "Material_HasSubsurfaceScattering (Diffuse m) = False"
| "Material_HasSubsurfaceScattering (DiffuseTransmission m) = False"
| "Material_HasSubsurfaceScattering (Hair m) = False"
| "Material_HasSubsurfaceScattering (Measured m) = False"
| "Material_HasSubsurfaceScattering (ThinDielectric m) = False"
| "Material_HasSubsurfaceScattering (Mix m) = False"

text \<open>\<^verbatim>\<open>Material::GetDisplacement\<close> and \<^verbatim>\<open>Material::GetNormalMap\<close>: each equation calls the
  accessor of the class, which returns the member of that name; \<^verbatim>\<open>HairMaterial\<close> has no
  such members and returns \<^verbatim>\<open>nullptr\<close>.\<close>

fun Material_GetDisplacement :: "Env \<Rightarrow> Material \<Rightarrow> error + FloatTexture" where
  "Material_GetDisplacement E (CoatedDiffuse m) = Inr (CoatedDiffuseMaterial.displacement m)"
| "Material_GetDisplacement E (CoatedConductor m) = Inr (CoatedConductorMaterial.displacement m)"
| "Material_GetDisplacement E (Conductor m) = Inr (ConductorMaterial.displacement m)"
| "Material_GetDisplacement E (Dielectric m) = Inr (DielectricMaterial.displacement m)"
| "Material_GetDisplacement E (Diffuse m) = Inr (DiffuseMaterial.displacement m)"
| "Material_GetDisplacement E (DiffuseTransmission m) =
     Inr (DiffuseTransmissionMaterial.displacement m)"
| "Material_GetDisplacement E (Hair m) = Inr None"
| "Material_GetDisplacement E (Measured m) = Inr (MeasuredMaterial.displacement m)"
| "Material_GetDisplacement E (Subsurface m) = Inr (SubsurfaceMaterial.displacement m)"
| "Material_GetDisplacement E (ThinDielectric m) = Inr (ThinDielectricMaterial.displacement m)"
| "Material_GetDisplacement E (Mix m) = MixMaterial_GetDisplacement E m"

fun Material_GetNormalMap :: "Env \<Rightarrow> Material \<Rightarrow> error + Image option" where
  "Material_GetNormalMap E (CoatedDiffuse m) = Inr (CoatedDiffuseMaterial.normalMap m)"
| "Material_GetNormalMap E (CoatedConductor m) = Inr (CoatedConductorMaterial.normalMap m)"
| "Material_GetNormalMap E (Conductor m) = Inr (ConductorMaterial.normalMap m)"
| "Material_GetNormalMap E (Dielectric m) = Inr (DielectricMaterial.normalMap m)"
| "Material_GetNormalMap E (Diffuse m) = Inr (DiffuseMaterial.normalMap m)"
| "Material_GetNormalMap E (DiffuseTransmission m) =
     Inr (DiffuseTransmissionMaterial.normalMap m)"
| "Material_GetNormalMap E (Hair m) = Inr None"
| "Material_GetNormalMap E (Measured m) = Inr (MeasuredMaterial.normalMap m)"
| "Material_GetNormalMap E (Subsurface m) = Inr (SubsurfaceMaterial.normalMap m)"
| "Material_GetNormalMap E (ThinDielectric m) = Inr (ThinDielectricMaterial.normalMap m)"
| "Material_GetNormalMap E (Mix m) = MixMaterial_GetNormalMap E m"

section \<open>Concrete inputs\<close>

text \<open>
  Inputs at which the theorems below are instantiated. \<open>cpu_env\<close> is a CPU debug build
  with simple stand-ins for the collaborators: terminating the secondary wavelengths sets
  their densities to 0 and divides the first by four, the hash is constantly one half, and
  the frame of a normal keeps the x and y axes; a spectrum has four samples and \<^verbatim>\<open>Float\<close> is
  the C++ \<^verbatim>\<open>float\<close>, with 23 fraction bits. \<open>gpu_env\<close> is the same compiled for the GPU.
  \<open>id_texEval\<close> evaluates float texture \<open>0\<close> to the u coordinate of the context and float
  or spectrum texture \<open>i\<close> to \<open>i / 10\<close>; \<open>const_texEval c\<close> evaluates every texture to \<open>c\<close>;
  \<open>reflectance_texEval c\<close> evaluates every spectrum texture to \<open>c\<close> and every float texture
  to 0.1.
\<close>

definition cpu_env :: Env where
  "cpu_env =
     \<lparr> PBRT_IS_GPU_CODE = False,
       DCHECK_enabled = True,
       RoughnessToAlpha = sqrt,
       TerminateSecondary = (\<lambda>w. w\<lparr> pdf := (\<lambda>i. if i = 0 then pdf w 0 / 4 else 0) \<rparr>),
       HashFloat = (\<lambda>pt dir m0 m1. 1 / 2),
       SigmaAFromReflectance = (\<lambda>c bn w. c),
       SigmaAFromConcentration = (\<lambda>ce cp w i. ce + cp),
       SubsurfaceFromDiffuse = (\<lambda>tab r mfree. (r, mfree)),
       FromZ = (\<lambda>z. Frame (1, 0, 0) (0, 1, 0) z),
       NSpectrumSamples = 4,
       Float_fraction_bits = 23 \<rparr>"

definition gpu_env :: Env where
  "gpu_env = cpu_env\<lparr> PBRT_IS_GPU_CODE := True \<rparr>"

definition id_texEval :: TextureEvaluator where
  "id_texEval =
     \<lparr> CanEvaluate = (\<lambda>fs ss. True),
       evalFloat = (\<lambda>t c. case t of None \<Rightarrow> 0
                            | Some i \<Rightarrow> if i = 0 then fst (TextureEvalContext.uv c) else real i / 10),
       evalSpectrum = (\<lambda>t c w j. case t of None \<Rightarrow> 0 | Some i \<Rightarrow> real i / 10) \<rparr>"

definition const_texEval :: "Float \<Rightarrow> TextureEvaluator" where
  "const_texEval c =
     \<lparr> CanEvaluate = (\<lambda>fs ss. True),
       evalFloat = (\<lambda>t x. c),
       evalSpectrum = (\<lambda>t x w j. c) \<rparr>"

definition reflectance_texEval :: "Float \<Rightarrow> TextureEvaluator" where
  "reflectance_texEval c =
     \<lparr> CanEvaluate = (\<lambda>fs ss. True),
       evalFloat = (\<lambda>t x. 1 / 10),
       evalSpectrum = (\<lambda>t x w j. c) \<rparr>"

definition lam0 :: SampledWavelengths where
  "lam0 = \<lparr> lambda = (\<lambda>i. 400 + 100 * real i), pdf = (\<lambda>i. 1) \<rparr>"

definition mctx0 :: MaterialEvalContext where
  "mctx0 =
     \<lparr> TextureEvalContext.p = (0, 0, 0),
       TextureEvalContext.dpdx = (1, 0, 0),
       TextureEvalContext.dpdy = (0, 1, 0),
       TextureEvalContext.uv = (1 / 4, 3 / 4),
       TextureEvalContext.dudx = 1,
       TextureEvalContext.dudy = 0,
       TextureEvalContext.dvdx = 0,
       TextureEvalContext.dvdy = 1,
       TextureEvalContext.faceIndex = 0,
       MaterialEvalContext.wo = (0, 0, 1),
       MaterialEvalContext.n = (0, 0, 1),
       MaterialEvalContext.ns = (0, 0, 1),
       MaterialEvalContext.dpdus = (1, 0, 0) \<rparr>"

text \<open>A bump context at \<open>uv = (0, 0)\<close> with finite-difference steps \<open>du = dv = 1\<close>, unit
  tangents along x and y, the normal along z, and the given normal derivatives.\<close>

definition bctx0 :: "Normal3f \<Rightarrow> Normal3f \<Rightarrow> BumpEvalContext" where
  "bctx0 nu nv =
     \<lparr> BumpEvalContext.p = (0, 0, 0),
       BumpEvalContext.uv = (0, 0),
       shading = \<lparr> Shading.n = (0, 0, 1), dpdu = (1, 0, 0), dpdv = (0, 1, 0),
                   dndu = nu, dndv = nv \<rparr>,
       BumpEvalContext.dudx = 1,
       BumpEvalContext.dudy = 1,
       BumpEvalContext.dvdx = 1,
       BumpEvalContext.dvdy = 1,
       BumpEvalContext.dpdx = (1, 0, 0),
       BumpEvalContext.dpdy = (0, 1, 0),
       BumpEvalContext.faceIndex = 0 \<rparr>"



definition dielectric0 :: "Spectrum \<Rightarrow> DielectricMaterial" where
  "dielectric0 e =
     \<lparr> DielectricMaterial.displacement = None,
       DielectricMaterial.normalMap = None,
       DielectricMaterial.uRoughness = Some 4,
       DielectricMaterial.vRoughness = Some 9,
       DielectricMaterial.eta = e,
       DielectricMaterial.remapRoughness = False \<rparr>"

definition thin_dielectric0 :: "Spectrum \<Rightarrow> ThinDielectricMaterial" where
  "thin_dielectric0 e =
     \<lparr> ThinDielectricMaterial.displacement = None,
       ThinDielectricMaterial.normalMap = None,
       ThinDielectricMaterial.eta = e \<rparr>"

definition diffuse0 :: "SpectrumTexture \<Rightarrow> FloatTexture \<Rightarrow> DiffuseMaterial" where
  "diffuse0 r s =
     \<lparr> DiffuseMaterial.displacement = Some 3,
       DiffuseMaterial.normalMap = None,
       DiffuseMaterial.reflectance = r,
       DiffuseMaterial.sigma = s \<rparr>"

definition diffuse_transmission0 ::
  "SpectrumTexture \<Rightarrow> SpectrumTexture \<Rightarrow> FloatTexture \<Rightarrow> DiffuseTransmissionMaterial" where
  "diffuse_transmission0 r t s =
     \<lparr> DiffuseTransmissionMaterial.displacement = None,
       DiffuseTransmissionMaterial.normalMap = None,
       DiffuseTransmissionMaterial.reflectance = r,
       transmittance = t,
       DiffuseTransmissionMaterial.sigma = s,
       DiffuseTransmissionMaterial.scale = 1 \<rparr>"

definition conductor0 :: "SpectrumTexture \<Rightarrow> ConductorMaterial" where
  "conductor0 r =
     \<lparr> ConductorMaterial.displacement = None,
       ConductorMaterial.normalMap = None,
       ConductorMaterial.eta = None,
       ConductorMaterial.k = None,
       ConductorMaterial.reflectance = r,
       ConductorMaterial.uRoughness = Some 1,
       ConductorMaterial.vRoughness = Some 1,
       ConductorMaterial.remapRoughness = False \<rparr>"

definition hair0 ::
  "SpectrumTexture \<Rightarrow> SpectrumTexture \<Rightarrow> FloatTexture \<Rightarrow> FloatTexture \<Rightarrow> HairMaterial" where
  "hair0 sa col eu pheo =
     \<lparr> HairMaterial.sigma_a = sa,
       color = col,
       eumelanin = eu,
       pheomelanin = pheo,
       HairMaterial.eta = Some 15,
       beta_m = Some 3,
       beta_n = Some 3,
       alpha = Some 20 \<rparr>"

definition mix0 :: "FloatTexture \<Rightarrow> Material MixMaterial" where
  "mix0 amt =
     MixMaterial amt
       (Diffuse (diffuse0 (Some 5) (Some 0)), Dielectric (dielectric0 (ConstantSpectrum (3 / 2))))"

section \<open>Auxiliary facts about vectors and clamping\<close>

lemma vscale_zero: "vscale 0 v = (0, 0, 0)"
  by (cases v) simp

lemma vadd_zero: "vadd v (0, 0, 0) = v"
  by (cases v) simp











lemma Clamp_bounds: "low \<le> high \<Longrightarrow> low \<le> Clamp v low high \<and> Clamp v low high \<le> high"
  by (simp add: Clamp_def)

section \<open>Auxiliary facts about rounded arithmetic\<close>

text \<open>Rounding to the nearest integer is monotone and fixes the integers.\<close>

lemma rne_of_int: "round_to_nearest_even (of_int z) = z"
  by (simp add: round_to_nearest_even_def)

lemma rne_bounds: "\<lfloor>x\<rfloor> \<le> round_to_nearest_even x \<and> round_to_nearest_even x \<le> \<lfloor>x\<rfloor> + 1"
  by (simp add: round_to_nearest_even_def Let_def)

lemma rne_mono:
  assumes "x \<le> y"
  shows "round_to_nearest_even x \<le> round_to_nearest_even y"
proof (cases "\<lfloor>x\<rfloor> = \<lfloor>y\<rfloor>")
  case True
  then have "x - of_int \<lfloor>x\<rfloor> \<le> y - of_int \<lfloor>y\<rfloor>"
    using assms by simp
  then show ?thesis
    using True by (auto simp add: round_to_nearest_even_def Let_def)
next
  case False
  then have "\<lfloor>x\<rfloor> < \<lfloor>y\<rfloor>"
    using assms floor_mono [of x y] by linarith
  then have "round_to_nearest_even x \<le> \<lfloor>y\<rfloor>"
    using rne_bounds [of x] by linarith
  then show ?thesis
    using rne_bounds [of y] by linarith
qed

lemma rne_near:
  assumes "\<bar>x - of_int z\<bar> < 1 / 2"
  shows "round_to_nearest_even x = z"
proof (cases "of_int z \<le> x")
  case True
  then have "\<lfloor>x\<rfloor> = z" using assms by (simp add: floor_unique)
  then show ?thesis using assms True by (simp add: round_to_nearest_even_def Let_def)
next
  case False
  then have "\<lfloor>x\<rfloor> = z - 1" using assms by (simp add: floor_unique)
  then show ?thesis using assms False by (simp add: round_to_nearest_even_def Let_def)
qed

lemma rne_tie_below:
  assumes "x = of_int z - 1 / 2" "even z"
  shows "round_to_nearest_even x = z"
proof -
  have "\<lfloor>x\<rfloor> = z - 1" using assms by (simp add: floor_unique)
  then show ?thesis using assms by (simp add: round_to_nearest_even_def Let_def)
qed


lemma round_Float_zero: "round_Float fb 0 = 0"
  by (simp add: round_Float_def)

lemma round_Float_binade:
  assumes "0 < x" "2 powr of_int e \<le> x" "x < 2 powr (of_int e + 1)"
  shows "round_Float fb x =
           of_int (round_to_nearest_even (x / 2 powr (of_int e - real fb))) *
           2 powr (of_int e - real fb)"
proof -
  have "\<lfloor>log 2 x\<rfloor> = e"
    using assms by (simp add: floor_log_eq_powr_iff)
  then show ?thesis
    using assms(1) by (simp add: round_Float_def Let_def)
qed

lemma binade_exists:
  assumes "0 < x"
  shows "2 powr of_int \<lfloor>log 2 x\<rfloor> \<le> x \<and> x < 2 powr (of_int \<lfloor>log 2 x\<rfloor> + 1)"
  using assms floor_log_eq_powr_iff [of x 2 "\<lfloor>log 2 x\<rfloor>"] by simp

lemma round_Float_bounds:
  assumes "0 < x" "2 powr of_int e \<le> x" "x < 2 powr (of_int e + 1)"
  shows "2 powr of_int e \<le> round_Float fb x \<and> round_Float fb x \<le> 2 powr (of_int e + 1)"
proof -
  define u :: real where "u = 2 powr (of_int e - real fb)"
  have u: "0 < u" by (simp add: u_def)
  have lo: "2 powr of_int e = of_int (2 ^ fb) * u"
    by (simp add: u_def powr_diff powr_realpow)
  have hi: "2 powr (of_int e + 1) = of_int (2 ^ (fb + 1)) * u"
    by (simp add: u_def powr_diff powr_add powr_realpow)
  have "of_int (2 ^ fb) \<le> x / u"
    using assms(2) u lo by (simp add: pos_le_divide_eq)
  then have a: "2 ^ fb \<le> round_to_nearest_even (x / u)"
    using rne_mono rne_of_int by metis
  have "x / u \<le> of_int (2 ^ (fb + 1))"
    using assms(3) u hi by (simp add: pos_divide_le_eq)
  then have b: "round_to_nearest_even (x / u) \<le> 2 ^ (fb + 1)"
    using rne_mono rne_of_int by metis
  have eq: "round_Float fb x = of_int (round_to_nearest_even (x / u)) * u"
    unfolding u_def by (rule round_Float_binade [OF assms])
  have "of_int (2 ^ fb) * u \<le> of_int (round_to_nearest_even (x / u)) * u"
    using a u by (simp del: of_int_power of_int_numeral)
  moreover have "of_int (round_to_nearest_even (x / u)) * u \<le> of_int (2 ^ (fb + 1)) * u"
    using b u by (simp del: of_int_power of_int_numeral power_Suc)
  ultimately show ?thesis
    unfolding eq lo hi by simp
qed

lemma round_Float_pos: "0 < x \<Longrightarrow> 0 < round_Float fb x"
proof -
  assume x: "0 < x"
  have "2 powr of_int \<lfloor>log 2 x\<rfloor> \<le> round_Float fb x"
    using round_Float_bounds [of x "\<lfloor>log 2 x\<rfloor>" fb] binade_exists [OF x] x by simp
  moreover have "(0::real) < 2 powr of_int \<lfloor>log 2 x\<rfloor>" by simp
  ultimately show ?thesis by linarith
qed

lemma round_Float_nonneg: "0 \<le> x \<Longrightarrow> 0 \<le> round_Float fb x"
  using round_Float_pos [of x fb] round_Float_zero [of fb] by (cases "x = 0") auto

lemma round_Float_mono_pos:
  assumes "0 < x" "x \<le> y"
  shows "round_Float fb x \<le> round_Float fb y"
proof -
  define ex where "ex = \<lfloor>log 2 x\<rfloor>"
  define ey where "ey = \<lfloor>log 2 y\<rfloor>"
  have y: "0 < y" using assms by simp
  have bx: "2 powr of_int ex \<le> x \<and> x < 2 powr (of_int ex + 1)"
    unfolding ex_def by (rule binade_exists [OF assms(1)])
  have "by": "2 powr of_int ey \<le> y \<and> y < 2 powr (of_int ey + 1)"
    unfolding ey_def by (rule binade_exists [OF y])
  have le: "ex \<le> ey"
    unfolding ex_def ey_def using assms y by (intro floor_mono) simp
  show ?thesis
  proof (cases "ex = ey")
    case True
    define u :: real where "u = 2 powr (of_int ey - real fb)"
    have u: "0 < u" by (simp add: u_def)
    have "x / u \<le> y / u"
      using assms(2) u by (simp add: divide_right_mono)
    then have "round_to_nearest_even (x / u) \<le> round_to_nearest_even (y / u)"
      by (rule rne_mono)
    then have "of_int (round_to_nearest_even (x / u)) * u \<le> of_int (round_to_nearest_even (y / u)) * u"
      using u by simp
    moreover have "round_Float fb x = of_int (round_to_nearest_even (x / u)) * u"
      unfolding u_def using round_Float_binade [of x ex fb] bx assms(1) True by simp
    moreover have "round_Float fb y = of_int (round_to_nearest_even (y / u)) * u"
      unfolding u_def using round_Float_binade [of y ey fb] "by" y by simp
    ultimately show ?thesis by simp
  next
    case False
    then have "ex + 1 \<le> ey" using le by simp
    then have "real_of_int ex + 1 \<le> real_of_int ey"
      by linarith
    then have "(2::real) powr (of_int ex + 1) \<le> 2 powr of_int ey"
      by (rule powr_mono) simp
    moreover have "round_Float fb x \<le> 2 powr (of_int ex + 1)"
      using round_Float_bounds [of x ex fb] bx assms(1) by simp
    moreover have "2 powr of_int ey \<le> round_Float fb y"
      using round_Float_bounds [of y ey fb] "by" y by simp
    ultimately show ?thesis by linarith
  qed
qed

lemma round_Float_mono:
  assumes "0 \<le> x" "x \<le> y"
  shows "round_Float fb x \<le> round_Float fb y"
proof (cases "x = 0")
  case True
  then show ?thesis
    using assms round_Float_nonneg [of y fb] by (simp add: round_Float_zero)
next
  case False
  then show ?thesis
    using assms by (intro round_Float_mono_pos) simp_all
qed

text \<open>The steps of the reflectance inversion: the divisor is positive below reflectance 1
  and does not grow with the reflectance, the numerator does not shrink, and so the rounded
  quotient does not shrink.\<close>

lemma inversion_divisor_pos:
  assumes "x < 1"
  shows "0 < round_Float fb (sqrt (max 0 (round_Float fb (1 - x))))"
proof -
  have "0 < round_Float fb (1 - x)"
    using assms by (intro round_Float_pos) simp
  then have "0 < sqrt (max 0 (round_Float fb (1 - x)))"
    by simp
  then show ?thesis
    by (rule round_Float_pos)
qed

lemma inversion_divisor_antimono:
  assumes "x \<le> y" "y < 1"
  shows "round_Float fb (sqrt (max 0 (round_Float fb (1 - y))))
         \<le> round_Float fb (sqrt (max 0 (round_Float fb (1 - x))))"
proof -
  have "round_Float fb (1 - y) \<le> round_Float fb (1 - x)"
    using assms by (intro round_Float_mono) simp_all
  then have "sqrt (max 0 (round_Float fb (1 - y))) \<le> sqrt (max 0 (round_Float fb (1 - x)))"
    by simp
  then show ?thesis
    by (intro round_Float_mono) simp_all
qed

lemma inversion_numerator_mono:
  assumes "0 \<le> x" "x \<le> y"
  shows "0 \<le> round_Float fb (2 * round_Float fb (sqrt x))"
    and "round_Float fb (2 * round_Float fb (sqrt x)) \<le> round_Float fb (2 * round_Float fb (sqrt y))"
proof -
  have s: "0 \<le> round_Float fb (sqrt x)"
    using assms(1) by (intro round_Float_nonneg) simp
  then show "0 \<le> round_Float fb (2 * round_Float fb (sqrt x))"
    by (intro round_Float_nonneg) simp
  have "round_Float fb (sqrt x) \<le> round_Float fb (sqrt y)"
    using assms by (intro round_Float_mono) simp_all
  then show "round_Float fb (2 * round_Float fb (sqrt x)) \<le> round_Float fb (2 * round_Float fb (sqrt y))"
    using s by (intro round_Float_mono) simp_all
qed

lemma inversion_mono:
  assumes "0 \<le> x" "x \<le> y" "y < 1"
  shows "round_Float fb (round_Float fb (2 * round_Float fb (sqrt x)) /
            round_Float fb (sqrt (max 0 (round_Float fb (1 - x)))))
         \<le> round_Float fb (round_Float fb (2 * round_Float fb (sqrt y)) /
            round_Float fb (sqrt (max 0 (round_Float fb (1 - y)))))"
proof -
  have dy: "0 < round_Float fb (sqrt (max 0 (round_Float fb (1 - y))))"
    using assms(3) by (rule inversion_divisor_pos)
  have dx: "0 < round_Float fb (sqrt (max 0 (round_Float fb (1 - x))))"
    using assms by (intro inversion_divisor_pos) simp
  have q: "round_Float fb (2 * round_Float fb (sqrt x)) /
             round_Float fb (sqrt (max 0 (round_Float fb (1 - x))))
           \<le> round_Float fb (2 * round_Float fb (sqrt y)) /
             round_Float fb (sqrt (max 0 (round_Float fb (1 - y))))"
  proof (rule frac_le)
    show "0 \<le> round_Float fb (2 * round_Float fb (sqrt y))"
      using inversion_numerator_mono [OF assms(1,2), of fb] by linarith
    show "round_Float fb (2 * round_Float fb (sqrt x)) \<le> round_Float fb (2 * round_Float fb (sqrt y))"
      by (rule inversion_numerator_mono(2) [OF assms(1,2)])
    show "0 < round_Float fb (sqrt (max 0 (round_Float fb (1 - y))))"
      by (rule dy)
    show "round_Float fb (sqrt (max 0 (round_Float fb (1 - y))))
          \<le> round_Float fb (sqrt (max 0 (round_Float fb (1 - x))))"
      by (rule inversion_divisor_antimono [OF assms(2,3)])
  qed
  have "0 \<le> round_Float fb (2 * round_Float fb (sqrt x)) /
             round_Float fb (sqrt (max 0 (round_Float fb (1 - x))))"
    using inversion_numerator_mono(1) [OF assms(1,2)] dx by simp
  then show ?thesis
    using q by (rule round_Float_mono)
qed

lemma inversion_zero:
  "round_Float fb (round_Float fb (2 * round_Float fb (sqrt 0)) /
     round_Float fb (sqrt (max 0 (round_Float fb (1 - 0))))) = 0"
  by (simp add: round_Float_zero)

lemma conductor_inversion_result:
  assumes "ConductorMaterial.eta m = None"
    and "\<forall>j < NSpectrumSamples E.
           0 \<le> evalSpectrum texEval (ConductorMaterial.reflectance m)
                 (TextureEvalContext.truncate ctx) lam j \<and>
           evalSpectrum texEval (ConductorMaterial.reflectance m)
             (TextureEvalContext.truncate ctx) lam j < 1"
  shows "\<exists>d. ConductorMaterial_GetBSDF E texEval m ctx lam =
           Inr (BSDF (MaterialEvalContext.ns ctx) (MaterialEvalContext.dpdus ctx)
                  (ConductorBxDF d (SampledSpectrum 1)
                     (\<lambda>i. round_Float (Float_fraction_bits E)
                        (round_Float (Float_fraction_bits E)
                           (2 * round_Float (Float_fraction_bits E)
                              (sqrt (evalSpectrum texEval (ConductorMaterial.reflectance m)
                                 (TextureEvalContext.truncate ctx) lam i))) /
                         round_Float (Float_fraction_bits E)
                           (sqrt (max 0 (round_Float (Float_fraction_bits E)
                              (1 - evalSpectrum texEval (ConductorMaterial.reflectance m)
                                 (TextureEvalContext.truncate ctx) lam i))))))))"
proof -
  have "round_Float (Float_fraction_bits E)
          (sqrt (max 0 (round_Float (Float_fraction_bits E)
             (1 - evalSpectrum texEval (ConductorMaterial.reflectance m)
                (TextureEvalContext.truncate ctx) lam j)))) \<noteq> 0"
    if "j < NSpectrumSamples E" for j
    using assms(2) that inversion_divisor_pos
      [of "evalSpectrum texEval (ConductorMaterial.reflectance m)
             (TextureEvalContext.truncate ctx) lam j" "Float_fraction_bits E"]
    by auto
  then show ?thesis
    using assms
    by (auto simp add: ConductorMaterial_GetBSDF_def Let_def sdiv_def smul_rounded_def Sqrt_def
          ssub_def ClampZero_def SampledSpectrum_def not_less)
qed

text \<open>Rounding with 23 fraction bits in the binades \<open>[1/2, 1)\<close> and \<open>[1, 2)\<close>, and the
  values that occur in the inversion of the reflectances 0.25 and \<open>0.25 + 2 ^ -25\<close>, the
  next \<^verbatim>\<open>float\<close> after it.\<close>

lemma sqrt_between:
  assumes "0 \<le> a" "a\<^sup>2 \<le> x" "x < b\<^sup>2" "0 \<le> b"
  shows "a \<le> sqrt x \<and> sqrt x < b"
proof
  show "a \<le> sqrt x"
    using assms(2) by (rule real_le_rsqrt)
  have "0 \<le> x"
    using assms(2) zero_le_power2 [of a] by linarith
  then show "sqrt x < b"
    using assms(3,4) by (intro real_less_lsqrt) simp_all
qed

lemma binary32_round_half_to_one:
  assumes "1 / 2 \<le> x" "x < 1" "\<bar>x * 16777216 - of_int z\<bar> < 1 / 2"
  shows "round_Float 23 x = of_int z / 16777216"
proof -
  have "round_Float 23 x =
          of_int (round_to_nearest_even (x / 2 powr (of_int (- 1) - real 23))) *
          2 powr (of_int (- 1) - real 23)"
    using assms(1,2) by (intro round_Float_binade) (simp_all add: powr_minus_divide)
  then have "round_Float 23 x = of_int (round_to_nearest_even (x * 16777216)) / 16777216"
    by (simp add: powr_minus_divide)
  moreover have "round_to_nearest_even (x * 16777216) = z"
    using assms(3) by (rule rne_near)
  ultimately show ?thesis
    by simp
qed

lemma binary32_round_half_to_one_tie:
  assumes "1 / 2 \<le> x" "x < 1" "x * 16777216 = of_int z - 1 / 2" "even z"
  shows "round_Float 23 x = of_int z / 16777216"
proof -
  have "round_Float 23 x =
          of_int (round_to_nearest_even (x / 2 powr (of_int (- 1) - real 23))) *
          2 powr (of_int (- 1) - real 23)"
    using assms(1,2) by (intro round_Float_binade) (simp_all add: powr_minus_divide)
  then have "round_Float 23 x = of_int (round_to_nearest_even (x * 16777216)) / 16777216"
    by (simp add: powr_minus_divide)
  moreover have "round_to_nearest_even (x * 16777216) = z"
    using assms(3,4) by (rule rne_tie_below)
  ultimately show ?thesis
    by simp
qed

lemma binary32_round_one_to_two:
  assumes "1 \<le> x" "x < 2" "\<bar>x * 8388608 - of_int z\<bar> < 1 / 2"
  shows "round_Float 23 x = of_int z / 8388608"
proof -
  have "round_Float 23 x =
          of_int (round_to_nearest_even (x / 2 powr (of_int (0) - real 23))) *
          2 powr (of_int (0) - real 23)"
    using assms(1,2) by (intro round_Float_binade) (simp_all add: powr_minus_divide)
  then have "round_Float 23 x = of_int (round_to_nearest_even (x * 8388608)) / 8388608"
    by (simp add: powr_minus_divide)
  moreover have "round_to_nearest_even (x * 8388608) = z"
    using assms(3) by (rule rne_near)
  ultimately show ?thesis
    by simp
qed

lemma binary32_sqrt_quarter: "round_Float 23 (sqrt (1 / 4)) = 1 / 2"
proof -
  have root: "sqrt (1 / 4) = 1 / 2"
    by (simp add: real_sqrt_divide)
  have "round_Float 23 (1 / 2) = of_int 8388608 / 16777216"
    by (rule binary32_round_half_to_one) simp_all
  then show ?thesis
    unfolding root by simp
qed

lemma binary32_sqrt_next_after_quarter: "round_Float 23 (sqrt (8388609 / 33554432)) = 1 / 2"
proof -
  have "1 / 2 \<le> sqrt (8388609 / 33554432) \<and> sqrt (8388609 / 33554432) < 16777217 / 33554432"
    by (rule sqrt_between) (simp_all add: power2_eq_square)
  then have "round_Float 23 (sqrt (8388609 / 33554432)) = of_int 8388608 / 16777216"
    by (intro binary32_round_half_to_one) (simp_all add: abs_if)
  then show ?thesis by simp
qed

lemma binary32_one_minus_quarter: "round_Float 23 (1 - 1 / 4) = 3 / 4"
proof -
  have "round_Float 23 (1 - 1 / 4) = of_int 12582912 / 16777216"
    by (rule binary32_round_half_to_one) simp_all
  then show ?thesis by simp
qed

lemma binary32_one_minus_next_after_quarter: "round_Float 23 (1 - 8388609 / 33554432) = 3 / 4"
proof -
  have "round_Float 23 (1 - 8388609 / 33554432) = of_int 12582912 / 16777216"
    by (rule binary32_round_half_to_one_tie) simp_all
  then show ?thesis by simp
qed

lemma binary32_twice_half: "round_Float 23 (2 * (1 / 2)) = 1"
proof -
  have "round_Float 23 (2 * (1 / 2)) = of_int 8388608 / 8388608"
    by (rule binary32_round_one_to_two) simp_all
  then show ?thesis by simp
qed

lemma binary32_sqrt_three_quarters: "round_Float 23 (sqrt (max 0 (3 / 4))) = 14529495 / 16777216"
proof -
  have "14529495 / 16777216 \<le> sqrt (3 / 4) \<and> sqrt (3 / 4) < 29058991 / 33554432"
    by (rule sqrt_between) (simp_all add: power2_eq_square)
  then have "round_Float 23 (sqrt (3 / 4)) = of_int 14529495 / 16777216"
    by (intro binary32_round_half_to_one) (simp_all add: abs_if)
  then show ?thesis by simp
qed

lemma binary32_inversion_quotient: "round_Float 23 (1 / (14529495 / 16777216)) = 4843165 / 4194304"
proof -
  have "round_Float 23 (1 / (14529495 / 16777216)) = of_int 9686330 / 8388608"
    by (rule binary32_round_one_to_two) (simp_all add: abs_if)
  then show ?thesis by simp
qed

lemma binary32_one: "round_Float 23 1 = 1"
  using binary32_twice_half by simp

lemma conductor_constant_reflectance:
  assumes "0 \<le> c" "c < 1"
  shows "ConductorMaterial_GetBSDF cpu_env (reflectance_texEval c) (conductor0 (Some 1)) mctx0 lam0 =
           Inr (BSDF (0, 0, 1) (1, 0, 0)
                  (ConductorBxDF (TrowbridgeReitzDistribution (1 / 10) (1 / 10)) (\<lambda>i. 1)
                     (\<lambda>i. round_Float 23
                        (round_Float 23 (2 * round_Float 23 (sqrt c)) /
                         round_Float 23 (sqrt (max 0 (round_Float 23 (1 - c))))))))"
proof -
  have "round_Float 23 (sqrt (max 0 (round_Float 23 (1 - c)))) \<noteq> 0"
    using inversion_divisor_pos [OF assms(2), of 23] by simp
  then show ?thesis
    using assms(1)
    by (simp add: ConductorMaterial_GetBSDF_def Let_def cpu_env_def reflectance_texEval_def
          conductor0_def mctx0_def TextureEvalContext.truncate_def sdiv_def smul_rounded_def
          Sqrt_def ssub_def ClampZero_def SampledSpectrum_def not_less)
qed

section \<open>Dielectric materials and the wavelength sample\<close>

text \<open>
  Claim C1. For every call of \<^verbatim>\<open>DielectricMaterial::GetBSDF\<close> and of
  \<^verbatim>\<open>ThinDielectricMaterial::GetBSDF\<close>: if the index-of-refraction spectrum \<open>eta\<close> is a
  \<^verbatim>\<open>ConstantSpectrum\<close>, the wavelengths are returned as they were passed; if it is not,
  the wavelengths returned are the result of \<^verbatim>\<open>TerminateSecondary\<close> on those passed.
\<close>

theorem C1_dielectric_wavelengths:
  "(Is_ConstantSpectrum (DielectricMaterial.eta m) \<longrightarrow>
      snd (DielectricMaterial_GetBSDF E texEval m ctx lam) = lam) \<and>
   (\<not> Is_ConstantSpectrum (DielectricMaterial.eta m) \<longrightarrow>
      snd (DielectricMaterial_GetBSDF E texEval m ctx lam) = TerminateSecondary E lam) \<and>
   (Is_ConstantSpectrum (ThinDielectricMaterial.eta tm) \<longrightarrow>
      snd (ThinDielectricMaterial_GetBSDF E texEval tm ctx lam) = lam) \<and>
   (\<not> Is_ConstantSpectrum (ThinDielectricMaterial.eta tm) \<longrightarrow>
      snd (ThinDielectricMaterial_GetBSDF E texEval tm ctx lam) = TerminateSecondary E lam)"
  by (simp add: DielectricMaterial_GetBSDF_def ThinDielectricMaterial_GetBSDF_def Let_def)

text \<open>At a constant index of 1.5 the wavelengths \<open>lam0\<close> come back unchanged; at the
  dispersive index \<open>l / 300\<close> the densities of the secondary wavelengths come back as 0.\<close>

theorem C1_dielectric_wavelengths_witness:
  "Is_ConstantSpectrum (DielectricMaterial.eta (dielectric0 (ConstantSpectrum (3 / 2)))) \<and>
   snd (DielectricMaterial_GetBSDF cpu_env id_texEval
          (dielectric0 (ConstantSpectrum (3 / 2))) mctx0 lam0) = lam0 \<and>
   \<not> Is_ConstantSpectrum
       (DielectricMaterial.eta (dielectric0 (NonConstantSpectrum (\<lambda>l. l / 300)))) \<and>
   snd (DielectricMaterial_GetBSDF cpu_env id_texEval
          (dielectric0 (NonConstantSpectrum (\<lambda>l. l / 300))) mctx0 lam0)
     = \<lparr> lambda = (\<lambda>i. 400 + 100 * real i), pdf = (\<lambda>i. if i = 0 then 1 / 4 else 0) \<rparr> \<and>
   Is_ConstantSpectrum
     (ThinDielectricMaterial.eta (thin_dielectric0 (ConstantSpectrum (3 / 2)))) \<and>
   snd (ThinDielectricMaterial_GetBSDF cpu_env id_texEval
          (thin_dielectric0 (ConstantSpectrum (3 / 2))) mctx0 lam0) = lam0 \<and>
   \<not> Is_ConstantSpectrum
       (ThinDielectricMaterial.eta (thin_dielectric0 (NonConstantSpectrum (\<lambda>l. l / 300)))) \<and>
   snd (ThinDielectricMaterial_GetBSDF cpu_env id_texEval
          (thin_dielectric0 (NonConstantSpectrum (\<lambda>l. l / 300))) mctx0 lam0)
     = \<lparr> lambda = (\<lambda>i. 400 + 100 * real i), pdf = (\<lambda>i. if i = 0 then 1 / 4 else 0) \<rparr>"
  using C1_dielectric_wavelengths
          [of "dielectric0 (ConstantSpectrum (3 / 2))" cpu_env id_texEval mctx0 lam0
              "thin_dielectric0 (ConstantSpectrum (3 / 2))"]
        C1_dielectric_wavelengths
          [of "dielectric0 (NonConstantSpectrum (\<lambda>l. l / 300))" cpu_env id_texEval mctx0 lam0
              "thin_dielectric0 (NonConstantSpectrum (\<lambda>l. l / 300))"]
  by (simp add: dielectric0_def thin_dielectric0_def cpu_env_def lam0_def cong: if_cong)

text \<open>
  Claim C7. For every call of \<^verbatim>\<open>DielectricMaterial::GetBSDF\<close> and of
  \<^verbatim>\<open>ThinDielectricMaterial::GetBSDF\<close> in which the index of refraction sampled at the first
  wavelength is exactly 0, the scattering function is constructed with index of refraction
  1, and the whole result (scattering function and wavelengths) equals that of the call in
  which the spectrum, of the same kind, samples to 1 at the first wavelength.
\<close>

theorem C7_zero_index_is_one:
  "(Spectrum_eval e0 (lambda lam 0) = 0 \<longrightarrow>
      DielectricBxDF_eta (BSDF_bxdf (fst (DielectricMaterial_GetBSDF E texEval
         (m\<lparr> DielectricMaterial.eta := e0 \<rparr>) ctx lam))) = 1 \<and>
      ThinDielectricBxDF_eta (BSDF_bxdf (fst (ThinDielectricMaterial_GetBSDF E texEval
         (tm\<lparr> ThinDielectricMaterial.eta := e0 \<rparr>) ctx lam))) = 1) \<and>
   (Spectrum_eval e0 (lambda lam 0) = 0 \<and> Spectrum_eval e1 (lambda lam 0) = 1 \<and>
    Is_ConstantSpectrum e0 = Is_ConstantSpectrum e1 \<longrightarrow>
      DielectricMaterial_GetBSDF E texEval (m\<lparr> DielectricMaterial.eta := e0 \<rparr>) ctx lam =
      DielectricMaterial_GetBSDF E texEval (m\<lparr> DielectricMaterial.eta := e1 \<rparr>) ctx lam \<and>
      ThinDielectricMaterial_GetBSDF E texEval (tm\<lparr> ThinDielectricMaterial.eta := e0 \<rparr>) ctx lam =
      ThinDielectricMaterial_GetBSDF E texEval (tm\<lparr> ThinDielectricMaterial.eta := e1 \<rparr>) ctx lam)"
  by (simp add: DielectricMaterial_GetBSDF_def ThinDielectricMaterial_GetBSDF_def Let_def)

theorem C7_zero_index_is_one_witness:
  "Spectrum_eval (ConstantSpectrum 0) (lambda lam0 0) = 0 \<and>
   Spectrum_eval (ConstantSpectrum 1) (lambda lam0 0) = 1 \<and>
   DielectricMaterial_GetBSDF cpu_env id_texEval (dielectric0 (ConstantSpectrum 0)) mctx0 lam0 =
     (BSDF (0, 0, 1) (1, 0, 0)
        (DielectricBxDF 1 (TrowbridgeReitzDistribution (2 / 5) (9 / 10))), lam0) \<and>
   DielectricMaterial_GetBSDF cpu_env id_texEval (dielectric0 (ConstantSpectrum 0)) mctx0 lam0 =
   DielectricMaterial_GetBSDF cpu_env id_texEval (dielectric0 (ConstantSpectrum 1)) mctx0 lam0 \<and>
   ThinDielectricMaterial_GetBSDF cpu_env id_texEval
     (thin_dielectric0 (ConstantSpectrum 0)) mctx0 lam0 =
     (BSDF (0, 0, 1) (1, 0, 0) (ThinDielectricBxDF 1), lam0) \<and>
   ThinDielectricMaterial_GetBSDF cpu_env id_texEval
     (thin_dielectric0 (ConstantSpectrum 0)) mctx0 lam0 =
   ThinDielectricMaterial_GetBSDF cpu_env id_texEval
     (thin_dielectric0 (ConstantSpectrum 1)) mctx0 lam0"
  using C7_zero_index_is_one [of "ConstantSpectrum 0" lam0 cpu_env id_texEval
          "dielectric0 (ConstantSpectrum 0)" mctx0 "thin_dielectric0 (ConstantSpectrum 0)"
          "ConstantSpectrum 1"]
  by (simp add: dielectric0_def thin_dielectric0_def DielectricMaterial_GetBSDF_def
        ThinDielectricMaterial_GetBSDF_def id_texEval_def mctx0_def Let_def
        TextureEvalContext.truncate_def)

section \<open>Choosing a sub-material of a mix\<close>

text \<open>
  Claim C2. \<^verbatim>\<open>MixMaterial::ChooseMaterial\<close> is a function of the evaluated amount, the
  shading point, the outgoing direction and the two sub-materials: two calls that agree on
  these (whatever the evaluator, the amount texture and the rest of the context) return the
  same sub-material. If the evaluated amount is at most 0 the result is \<^verbatim>\<open>materials[0]\<close>,
  and if it is at least 1 the result is \<^verbatim>\<open>materials[1]\<close>, whatever the hash function is.
\<close>

theorem C2_choose_material:
  "(evalFloat texEval (amount m) (TextureEvalContext.truncate ctx) =
      evalFloat texEval' (amount m') (TextureEvalContext.truncate ctx') \<and>
    TextureEvalContext.p ctx = TextureEvalContext.p ctx' \<and>
    MaterialEvalContext.wo ctx = MaterialEvalContext.wo ctx' \<and>
    materials m = materials m' \<longrightarrow>
      MixMaterial_ChooseMaterial E texEval m ctx = MixMaterial_ChooseMaterial E texEval' m' ctx') \<and>
   (evalFloat texEval (amount m) (TextureEvalContext.truncate ctx) \<le> 0 \<longrightarrow>
      MixMaterial_ChooseMaterial (E\<lparr> HashFloat := hf \<rparr>) texEval m ctx = fst (materials m)) \<and>
   (evalFloat texEval (amount m) (TextureEvalContext.truncate ctx) \<ge> 1 \<longrightarrow>
      MixMaterial_ChooseMaterial (E\<lparr> HashFloat := hf \<rparr>) texEval m ctx = snd (materials m))"
  by (simp add: MixMaterial_ChooseMaterial_def Let_def)

text \<open>Amount 0 picks the diffuse sub-material under a hash that is constantly 0, amount 1
  picks the dielectric one under a hash that is constantly 1, and two calls with amount 0.3
  from different evaluators, textures and shading normals agree.\<close>

theorem C2_choose_material_witness:
  "evalFloat (const_texEval 0) (amount (mix0 (Some 1))) (TextureEvalContext.truncate mctx0) = 0 \<and>
   MixMaterial_ChooseMaterial (cpu_env\<lparr> HashFloat := (\<lambda>pt dir m0 m1. 0) \<rparr>) (const_texEval 0)
     (mix0 (Some 1)) mctx0 = Diffuse (diffuse0 (Some 5) (Some 0)) \<and>
   evalFloat id_texEval (amount (mix0 (Some 10))) (TextureEvalContext.truncate mctx0) = 1 \<and>
   MixMaterial_ChooseMaterial (cpu_env\<lparr> HashFloat := (\<lambda>pt dir m0 m1. 1) \<rparr>) id_texEval
     (mix0 (Some 10)) mctx0 = Dielectric (dielectric0 (ConstantSpectrum (3 / 2))) \<and>
   MixMaterial_ChooseMaterial cpu_env id_texEval (mix0 (Some 3)) mctx0 =
   MixMaterial_ChooseMaterial cpu_env (const_texEval (3 / 10)) (mix0 (Some 7))
     (mctx0\<lparr> MaterialEvalContext.ns := (0, 1, 0), TextureEvalContext.uv := (0, 0) \<rparr>)"
  using C2_choose_material
          [of "const_texEval 0" "mix0 (Some 1)" mctx0 "const_texEval 0" "mix0 (Some 1)" mctx0
              cpu_env "\<lambda>pt dir m0 m1. 0"]
        C2_choose_material
          [of id_texEval "mix0 (Some 10)" mctx0 id_texEval "mix0 (Some 10)" mctx0
              cpu_env "\<lambda>pt dir m0 m1. 1"]
        C2_choose_material
          [of id_texEval "mix0 (Some 3)" mctx0 "const_texEval (3 / 10)" "mix0 (Some 7)"
              "mctx0\<lparr> MaterialEvalContext.ns := (0, 1, 0), TextureEvalContext.uv := (0, 0) \<rparr>"
              cpu_env]
  by (simp add: mix0_def id_texEval_def const_texEval_def mctx0_def
        TextureEvalContext.truncate_def)

section \<open>Calls that are unreachable by contract\<close>

text \<open>
  Claim C3 states that \<^verbatim>\<open>GetBSSRDF\<close> on any variant without subsurface scattering is a
  fatal error on the CPU. It is not: on the CPU, \<^verbatim>\<open>DielectricMaterial::GetBSSRDF\<close> returns
  normally, and \<^verbatim>\<open>Material::GetBSSRDF\<close> on a dielectric material returns the null handle.
\<close>

theorem C3_bssrdf_not_fatal_counterexample:
  "\<not> PBRT_IS_GPU_CODE cpu_env \<and>
   \<not> Material_HasSubsurfaceScattering (Dielectric (dielectric0 (ConstantSpectrum (3 / 2)))) \<and>
   DielectricMaterial_GetBSSRDF cpu_env id_texEval
     (dielectric0 (ConstantSpectrum (3 / 2))) mctx0 lam0 = Inr () \<and>
   Material_GetBSSRDF cpu_env id_texEval
     (Dielectric (dielectric0 (ConstantSpectrum (3 / 2)))) mctx0 lam0 = Inr None"
  by (simp add: cpu_env_def DielectricMaterial_GetBSSRDF_def)

text \<open>
  Claim C3, as amended. In code not compiled for the GPU, \<^verbatim>\<open>MixMaterial::GetBSDF\<close> and
  \<^verbatim>\<open>MixMaterial::GetBSSRDF\<close> end in \<^verbatim>\<open>LOG_FATAL\<close>. The \<^verbatim>\<open>GetBSSRDF\<close> member of each of
  the nine other classes without subsurface scattering returns without an error and without
  a result, and \<^verbatim>\<open>Material::GetBSSRDF\<close> returns the null handle, without an error, for
  every material that reports no subsurface scattering (a mix included).
\<close>

theorem C3_unreachable_calls:
  "(\<not> PBRT_IS_GPU_CODE E \<longrightarrow>
      MixMaterial_GetBSDF E texEval mm ctx lam =
        Inl (LogFatal ''MixMaterial::GetBSDF() shouldn't be called'') \<and>
      MixMaterial_GetBSSRDF E texEval mm ctx lam = Inl (LogFatal ''Shouldn't be called'')) \<and>
   DielectricMaterial_GetBSSRDF E texEval m1 ctx lam = Inr () \<and>
   ThinDielectricMaterial_GetBSSRDF E texEval m2 ctx lam = Inr () \<and>
   HairMaterial_GetBSSRDF E texEval m3 ctx lam = Inr () \<and>
   DiffuseMaterial_GetBSSRDF E texEval m4 ctx lam = Inr () \<and>
   ConductorMaterial_GetBSSRDF E texEval m5 ctx lam = Inr () \<and>
   CoatedDiffuseMaterial_GetBSSRDF E texEval m6 ctx lam = Inr () \<and>
   CoatedConductorMaterial_GetBSSRDF E texEval m7 ctx lam = Inr () \<and>
   DiffuseTransmissionMaterial_GetBSSRDF E texEval m8 ctx lam = Inr () \<and>
   MeasuredMaterial_GetBSSRDF E texEval m9 ctx lam = Inr () \<and>
   (\<not> Material_HasSubsurfaceScattering mat \<longrightarrow>
      Material_GetBSSRDF E texEval mat ctx lam = Inr None)"
  by (cases mat)
     (simp_all add: MixMaterial_GetBSDF_def MixMaterial_GetBSSRDF_def
        DielectricMaterial_GetBSSRDF_def ThinDielectricMaterial_GetBSSRDF_def
        HairMaterial_GetBSSRDF_def DiffuseMaterial_GetBSSRDF_def ConductorMaterial_GetBSSRDF_def
        CoatedDiffuseMaterial_GetBSSRDF_def CoatedConductorMaterial_GetBSSRDF_def
        DiffuseTransmissionMaterial_GetBSSRDF_def MeasuredMaterial_GetBSSRDF_def)

theorem C3_unreachable_calls_witness:
  "\<not> PBRT_IS_GPU_CODE cpu_env \<and>
   MixMaterial_GetBSDF cpu_env id_texEval (mix0 (Some 3)) mctx0 lam0 =
     Inl (LogFatal ''MixMaterial::GetBSDF() shouldn't be called'') \<and>
   MixMaterial_GetBSSRDF cpu_env id_texEval (mix0 (Some 3)) mctx0 lam0 =
     Inl (LogFatal ''Shouldn't be called'') \<and>
   \<not> Material_HasSubsurfaceScattering (Mix (mix0 (Some 3))) \<and>
   Material_GetBSSRDF cpu_env id_texEval (Mix (mix0 (Some 3))) mctx0 lam0 = Inr None"
  using C3_unreachable_calls
          [of cpu_env id_texEval "mix0 (Some 3)" mctx0 lam0 _ _ _ _ _ _ _ _ _ "Mix (mix0 (Some 3))"]
  by (simp add: cpu_env_def)

section \<open>Displacement and normal-map accessors\<close>

text \<open>
  Claim C10. \<^verbatim>\<open>GetDisplacement\<close> and \<^verbatim>\<open>GetNormalMap\<close> on the mix variant, directly or
  through the dispatch of \<^verbatim>\<open>Material\<close>, are a fatal error in code not compiled for the GPU
  and return the null handle in code compiled for it. On each of the ten other variants the
  dispatch returns, without an error, the handle the variant holds, null or not (the hair
  variant holds none, and its accessors return null).
\<close>

theorem C10_accessors:
  "(\<not> PBRT_IS_GPU_CODE E \<longrightarrow>
      MixMaterial_GetDisplacement E mm = Inl (LogFatal ''Shouldn't be called'') \<and>
      MixMaterial_GetNormalMap E mm = Inl (LogFatal ''Shouldn't be called'') \<and>
      Material_GetDisplacement E (Mix mm) = Inl (LogFatal ''Shouldn't be called'') \<and>
      Material_GetNormalMap E (Mix mm) = Inl (LogFatal ''Shouldn't be called'')) \<and>
   (PBRT_IS_GPU_CODE E \<longrightarrow>
      MixMaterial_GetDisplacement E mm = Inr None \<and>
      MixMaterial_GetNormalMap E mm = Inr None \<and>
      Material_GetDisplacement E (Mix mm) = Inr None \<and>
      Material_GetNormalMap E (Mix mm) = Inr None) \<and>
   Material_GetDisplacement E (CoatedDiffuse a1) = Inr (CoatedDiffuseMaterial.displacement a1) \<and>
   Material_GetNormalMap E (CoatedDiffuse a1) = Inr (CoatedDiffuseMaterial.normalMap a1) \<and>
   Material_GetDisplacement E (CoatedConductor a2) = Inr (CoatedConductorMaterial.displacement a2) \<and>
   Material_GetNormalMap E (CoatedConductor a2) = Inr (CoatedConductorMaterial.normalMap a2) \<and>
   Material_GetDisplacement E (Conductor a3) = Inr (ConductorMaterial.displacement a3) \<and>
   Material_GetNormalMap E (Conductor a3) = Inr (ConductorMaterial.normalMap a3) \<and>
   Material_GetDisplacement E (Dielectric a4) = Inr (DielectricMaterial.displacement a4) \<and>
   Material_GetNormalMap E (Dielectric a4) = Inr (DielectricMaterial.normalMap a4) \<and>
   Material_GetDisplacement E (Diffuse a5) = Inr (DiffuseMaterial.displacement a5) \<and>
   Material_GetNormalMap E (Diffuse a5) = Inr (DiffuseMaterial.normalMap a5) \<and>
   Material_GetDisplacement E (DiffuseTransmission a6) =
     Inr (DiffuseTransmissionMaterial.displacement a6) \<and>
   Material_GetNormalMap E (DiffuseTransmission a6) =
     Inr (DiffuseTransmissionMaterial.normalMap a6) \<and>
   Material_GetDisplacement E (Hair a7) = Inr None \<and>
   Material_GetNormalMap E (Hair a7) = Inr None \<and>
   Material_GetDisplacement E (Measured a8) = Inr (MeasuredMaterial.displacement a8) \<and>
   Material_GetNormalMap E (Measured a8) = Inr (MeasuredMaterial.normalMap a8) \<and>
   Material_GetDisplacement E (Subsurface a9) = Inr (SubsurfaceMaterial.displacement a9) \<and>
   Material_GetNormalMap E (Subsurface a9) = Inr (SubsurfaceMaterial.normalMap a9) \<and>
   Material_GetDisplacement E (ThinDielectric a10) = Inr (ThinDielectricMaterial.displacement a10) \<and>
   Material_GetNormalMap E (ThinDielectric a10) = Inr (ThinDielectricMaterial.normalMap a10)"
  by (simp add: MixMaterial_GetDisplacement_def MixMaterial_GetNormalMap_def)

theorem C10_accessors_witness:
  "\<not> PBRT_IS_GPU_CODE cpu_env \<and>
   Material_GetDisplacement cpu_env (Mix (mix0 (Some 3))) = Inl (LogFatal ''Shouldn't be called'') \<and>
   Material_GetNormalMap cpu_env (Mix (mix0 (Some 3))) = Inl (LogFatal ''Shouldn't be called'') \<and>
   PBRT_IS_GPU_CODE gpu_env \<and>
   Material_GetDisplacement gpu_env (Mix (mix0 (Some 3))) = Inr None \<and>
   Material_GetNormalMap gpu_env (Mix (mix0 (Some 3))) = Inr None \<and>
   Material_GetDisplacement cpu_env (Diffuse (diffuse0 (Some 5) (Some 0))) = Inr (Some 3) \<and>
   Material_GetNormalMap cpu_env (Diffuse (diffuse0 (Some 5) (Some 0))) = Inr None"
  using C10_accessors [of cpu_env "mix0 (Some 3)" _ _ _ _ "diffuse0 (Some 5) (Some 0)"]
        C10_accessors [of gpu_env "mix0 (Some 3)" _ _ _ _ "diffuse0 (Some 5) (Some 0)"]
  by (simp add: cpu_env_def gpu_env_def diffuse0_def)

section \<open>Absorption of hair\<close>

text \<open>
  Claim C9. \<^verbatim>\<open>HairMaterial::GetBSDF\<close> takes the absorption coefficient from exactly one
  source, in this order: the texture \<^verbatim>\<open>sigma_a\<close> if present (clamped at zero); otherwise
  the texture \<^verbatim>\<open>color\<close> if present, clamped to \<open>[0, 1]\<close> and converted with the floored
  roughness \<^verbatim>\<open>beta_n\<close>; otherwise the pigment concentrations, each read from its texture if
  present and 0 if not, clamped at zero. With none of the four textures present the call
  ends in the failed \<^verbatim>\<open>CHECK(eumelanin || pheomelanin)\<close>.
\<close>

theorem C9_hair_absorption_source:
  "(let tctx = TextureEvalContext.truncate ctx;
        bm = max (1 / 100) (evalFloat texEval (beta_m m) tctx);
        bn = max (1 / 100) (evalFloat texEval (beta_n m) tctx);
        a = evalFloat texEval (alpha m) tctx;
        e = evalFloat texEval (HairMaterial.eta m) tctx;
        h = - 1 + 2 * snd (TextureEvalContext.uv ctx);
        result = (\<lambda>sa. Inr (BSDF (MaterialEvalContext.ns ctx) (MaterialEvalContext.dpdus ctx)
                           (HairBxDF h e sa bm bn a)))
    in (HairMaterial.sigma_a m \<noteq> None \<longrightarrow>
          HairMaterial_GetBSDF E texEval m ctx lam =
            result (ClampZero (evalSpectrum texEval (HairMaterial.sigma_a m) tctx lam))) \<and>
       (HairMaterial.sigma_a m = None \<and> color m \<noteq> None \<longrightarrow>
          HairMaterial_GetBSDF E texEval m ctx lam =
            result (SigmaAFromReflectance E
                      (ClampS (evalSpectrum texEval (color m) tctx lam) 0 1) bn lam)) \<and>
       (HairMaterial.sigma_a m = None \<and> color m = None \<and>
        (eumelanin m \<noteq> None \<or> pheomelanin m \<noteq> None) \<longrightarrow>
          HairMaterial_GetBSDF E texEval m ctx lam =
            result (SigmaAFromConcentration E
                      (max 0 (if eumelanin m \<noteq> None
                              then evalFloat texEval (eumelanin m) tctx else 0))
                      (max 0 (if pheomelanin m \<noteq> None
                              then evalFloat texEval (pheomelanin m) tctx else 0))
                      lam)) \<and>
       (HairMaterial.sigma_a m = None \<and> color m = None \<and>
        eumelanin m = None \<and> pheomelanin m = None \<longrightarrow>
          HairMaterial_GetBSDF E texEval m ctx lam =
            Inl (CheckFailed ''eumelanin || pheomelanin'')))"
  by (auto simp add: HairMaterial_GetBSDF_def Let_def)

text \<open>With \<^verbatim>\<open>sigma_a\<close>, \<^verbatim>\<open>color\<close> and \<^verbatim>\<open>eumelanin\<close> all present the absorption is that of
  \<^verbatim>\<open>sigma_a\<close> (0.7); without \<^verbatim>\<open>sigma_a\<close> it is that of the colour 1.4 clamped to 1; with
  only \<^verbatim>\<open>eumelanin\<close> it is that of the concentrations 0.2 and 0; with none, the check fails.\<close>

theorem C9_hair_absorption_source_witness:
  "HairMaterial_GetBSDF cpu_env id_texEval (hair0 (Some 7) (Some 8) (Some 2) None) mctx0 lam0 =
     Inr (BSDF (0, 0, 1) (1, 0, 0)
            (HairBxDF (1 / 2) (3 / 2) (\<lambda>i. 7 / 10) (3 / 10) (3 / 10) 2)) \<and>
   HairMaterial_GetBSDF cpu_env id_texEval (hair0 None (Some 14) (Some 2) None) mctx0 lam0 =
     Inr (BSDF (0, 0, 1) (1, 0, 0)
            (HairBxDF (1 / 2) (3 / 2) (\<lambda>i. 1) (3 / 10) (3 / 10) 2)) \<and>
   HairMaterial_GetBSDF cpu_env id_texEval (hair0 None None (Some 2) None) mctx0 lam0 =
     Inr (BSDF (0, 0, 1) (1, 0, 0)
            (HairBxDF (1 / 2) (3 / 2) (\<lambda>i. 1 / 5) (3 / 10) (3 / 10) 2)) \<and>
   HairMaterial_GetBSDF cpu_env id_texEval (hair0 None None None None) mctx0 lam0 =
     Inl (CheckFailed ''eumelanin || pheomelanin'')"
  using C9_hair_absorption_source
          [of mctx0 id_texEval "hair0 (Some 7) (Some 8) (Some 2) None" cpu_env lam0]
        C9_hair_absorption_source
          [of mctx0 id_texEval "hair0 None (Some 14) (Some 2) None" cpu_env lam0]
        C9_hair_absorption_source
          [of mctx0 id_texEval "hair0 None None (Some 2) None" cpu_env lam0]
        C9_hair_absorption_source
          [of mctx0 id_texEval "hair0 None None None None" cpu_env lam0]
  by (simp add: hair0_def id_texEval_def mctx0_def cpu_env_def TextureEvalContext.truncate_def
        ClampZero_def ClampS_def Clamp_def Let_def)

section \<open>Bump mapping\<close>

text \<open>
  Claim C4 states that a displacement texture with the same value everywhere leaves the
  tangents as they were. It does not when the value is not 0 and the shading normal varies:
  with the value 1 everywhere, \<open>dpdu = (1, 0, 0)\<close> and \<open>dndu = (1, 0, 0)\<close>, the tangent
  returned is \<open>(2, 0, 0)\<close>.
\<close>

theorem C4_constant_displacement_counterexample:
  "Bump cpu_env (const_texEval 1) (Some 1) None (bctx0 (1, 0, 0) (0, 0, 0)) =
     Inr ((2, 0, 0), (0, 1, 0)) \<and>
   Shading.dpdu (shading (bctx0 (1, 0, 0) (0, 0, 0))) = (1, 0, 0)"
  by (simp add: Bump_def cpu_env_def const_texEval_def bctx0_def Let_def
        BumpEvalContext_to_TextureEvalContext_def)

text \<open>
  Claim C4, as amended. For every \<^verbatim>\<open>Bump\<close> call on the displacement path (with the
  \<^verbatim>\<open>DCHECK\<close> on the evaluator passing where it is compiled in) in which the displacement
  texture evaluates to the same value \<open>d\<close> at every texture context, the tangents returned
  are \<open>dpdu + d * dndu\<close> and \<open>dpdv + d * dndv\<close>: the finite-difference slope is zero, and the
  term of the normal's derivative stays. They are the original tangents when \<open>d = 0\<close>, and
  when both derivatives of the shading normal are zero.
\<close>

theorem C4_constant_displacement:
  "disp \<noteq> None \<and> (\<forall>c. evalFloat texEval disp c = d) \<and>
   (DCHECK_enabled E \<longrightarrow> CanEvaluate texEval [disp] []) \<longrightarrow>
     Bump E texEval disp nmap ctx =
       Inr (vadd (Shading.dpdu (shading ctx)) (vscale d (Shading.dndu (shading ctx))),
            vadd (Shading.dpdv (shading ctx)) (vscale d (Shading.dndv (shading ctx)))) \<and>
     (d = 0 \<or>
      Shading.dndu (shading ctx) = (0, 0, 0) \<and> Shading.dndv (shading ctx) = (0, 0, 0) \<longrightarrow>
        Bump E texEval disp nmap ctx =
          Inr (Shading.dpdu (shading ctx), Shading.dpdv (shading ctx)))"
proof (intro impI)
  assume pre: "disp \<noteq> None \<and> (\<forall>c. evalFloat texEval disp c = d) \<and>
    (DCHECK_enabled E \<longrightarrow> CanEvaluate texEval [disp] [])"
  then have slope: "(evalFloat texEval disp c - evalFloat texEval disp c') / s = 0" for c c' s
    by simp
  have result: "Bump E texEval disp nmap ctx =
       Inr (vadd (Shading.dpdu (shading ctx)) (vscale d (Shading.dndu (shading ctx))),
            vadd (Shading.dpdv (shading ctx)) (vscale d (Shading.dndv (shading ctx))))"
    using pre by (simp add: Bump_def Let_def slope vscale_zero vadd_zero)
  moreover have "Bump E texEval disp nmap ctx =
          Inr (Shading.dpdu (shading ctx), Shading.dpdv (shading ctx))"
    if "d = 0 \<or>
      Shading.dndu (shading ctx) = (0, 0, 0) \<and> Shading.dndv (shading ctx) = (0, 0, 0)"
    using that result by (auto simp add: vscale_zero vadd_zero)
  ultimately show "Bump E texEval disp nmap ctx =
       Inr (vadd (Shading.dpdu (shading ctx)) (vscale d (Shading.dndu (shading ctx))),
            vadd (Shading.dpdv (shading ctx)) (vscale d (Shading.dndv (shading ctx)))) \<and>
     (d = 0 \<or>
      Shading.dndu (shading ctx) = (0, 0, 0) \<and> Shading.dndv (shading ctx) = (0, 0, 0) \<longrightarrow>
        Bump E texEval disp nmap ctx =
          Inr (Shading.dpdu (shading ctx), Shading.dpdv (shading ctx)))"
    by blast
qed

theorem C4_constant_displacement_witness:
  "Bump cpu_env (const_texEval 0) (Some 1) None (bctx0 (1, 0, 0) (0, 2, 0)) =
     Inr ((1, 0, 0), (0, 1, 0)) \<and>
   Bump cpu_env (const_texEval 3) (Some 1) None (bctx0 (1, 0, 0) (0, 2, 0)) =
     Inr ((4, 0, 0), (0, 7, 0))"
  using C4_constant_displacement
          [of "Some 1" "const_texEval 0" 0 cpu_env None "bctx0 (1, 0, 0) (0, 2, 0)"]
        C4_constant_displacement
          [of "Some 1" "const_texEval 3" 3 cpu_env None "bctx0 (1, 0, 0) (0, 2, 0)"]
  by (simp add: const_texEval_def bctx0_def)




section \<open>Diffuse materials\<close>

text \<open>The clamps that the diffuse materials apply: reflectance and roughness angle in
  \<^verbatim>\<open>DiffuseMaterial\<close>, reflectance and transmittance in \<^verbatim>\<open>DiffuseTransmissionMaterial\<close>.\<close>

lemma diffuse_family_clamped:
  "0 \<le> RoughDiffuseBxDF_R (BSDF_bxdf (DiffuseMaterial_GetBSDF E texEval m ctx lam)) i \<and>
   RoughDiffuseBxDF_R (BSDF_bxdf (DiffuseMaterial_GetBSDF E texEval m ctx lam)) i \<le> 1 \<and>
   0 \<le> RoughDiffuseBxDF_sigma (BSDF_bxdf (DiffuseMaterial_GetBSDF E texEval m ctx lam)) \<and>
   RoughDiffuseBxDF_sigma (BSDF_bxdf (DiffuseMaterial_GetBSDF E texEval m ctx lam)) \<le> 90 \<and>
   0 \<le> RoughDiffuseBxDF_R
         (BSDF_bxdf (DiffuseTransmissionMaterial_GetBSDF E texEval tm ctx lam)) i \<and>
   RoughDiffuseBxDF_R
     (BSDF_bxdf (DiffuseTransmissionMaterial_GetBSDF E texEval tm ctx lam)) i \<le> 1 \<and>
   0 \<le> RoughDiffuseBxDF_T
         (BSDF_bxdf (DiffuseTransmissionMaterial_GetBSDF E texEval tm ctx lam)) i \<and>
   RoughDiffuseBxDF_T
     (BSDF_bxdf (DiffuseTransmissionMaterial_GetBSDF E texEval tm ctx lam)) i \<le> 1"
  by (simp add: DiffuseMaterial_GetBSDF_def DiffuseTransmissionMaterial_GetBSDF_def Let_def
        ClampS_def Clamp_bounds)

text \<open>
  Claim C6. The diffuse-family variants clamp reflectance and transmittance to \<open>[0, 1]\<close> and
  the roughness angle \<open>sigma\<close> to \<open>[0, 90]\<close>. \<^verbatim>\<open>DiffuseTransmissionMaterial::GetBSDF\<close> passes
  \<open>sigma\<close> on as the texture gives it: with reflectance and transmittance textures of value
  1.4 and a \<open>sigma\<close> texture of value 120, the scattering function is constructed with
  reflectance 1, transmittance 1 and \<open>sigma = 120\<close>, where \<^verbatim>\<open>DiffuseMaterial::GetBSDF\<close> on the
  same textures constructs it with \<open>sigma = 90\<close>.
\<close>

theorem C6_diffuse_transmission_sigma_not_clamped:
  "DiffuseTransmissionMaterial_GetBSDF cpu_env id_texEval
     (diffuse_transmission0 (Some 14) (Some 14) (Some 1200)) mctx0 lam0 =
     BSDF (0, 0, 1) (1, 0, 0) (RoughDiffuseBxDF (\<lambda>i. 1) (\<lambda>i. 1) 120) \<and>
   DiffuseMaterial_GetBSDF cpu_env id_texEval (diffuse0 (Some 14) (Some 1200)) mctx0 lam0 =
     BSDF (0, 0, 1) (1, 0, 0) (RoughDiffuseBxDF (\<lambda>i. 1) (\<lambda>i. 0) 90)"
  by (simp add: DiffuseTransmissionMaterial_GetBSDF_def DiffuseMaterial_GetBSDF_def Let_def
        diffuse_transmission0_def diffuse0_def id_texEval_def mctx0_def
        TextureEvalContext.truncate_def ClampS_def Clamp_def smul_def SampledSpectrum_def)

section \<open>Conductor from reflectance\<close>

text \<open>
  Claim C8 states that the absorption derived from a reflectance is strictly larger at the
  larger of two reflectances in \<open>[0, 1)\<close>. In \<^verbatim>\<open>float\<close> arithmetic it is not: at reflectance
  0.25 and at the next \<^verbatim>\<open>float\<close>, \<open>0.25 + 2 ^ -25\<close>, the square root rounds to 0.5 and
  \<open>1 - r\<close> rounds to 0.75, and both calls construct the scattering function with the same
  absorption \<open>4843165 / 4194304\<close> (1.1547005).
\<close>

theorem C8_strict_monotonicity_counterexample:
  "(1 / 4 :: real) < 8388609 / 33554432 \<and> (8388609 / 33554432 :: real) < 1 \<and>
   ConductorMaterial_GetBSDF cpu_env (reflectance_texEval (1 / 4)) (conductor0 (Some 1)) mctx0 lam0 =
     Inr (BSDF (0, 0, 1) (1, 0, 0)
            (ConductorBxDF (TrowbridgeReitzDistribution (1 / 10) (1 / 10)) (\<lambda>i. 1)
               (\<lambda>i. 4843165 / 4194304))) \<and>
   ConductorMaterial_GetBSDF cpu_env (reflectance_texEval (8388609 / 33554432))
     (conductor0 (Some 1)) mctx0 lam0 =
     Inr (BSDF (0, 0, 1) (1, 0, 0)
            (ConductorBxDF (TrowbridgeReitzDistribution (1 / 10) (1 / 10)) (\<lambda>i. 1)
               (\<lambda>i. 4843165 / 4194304)))"
proof -
  have a: "ConductorMaterial_GetBSDF cpu_env (reflectance_texEval (1 / 4)) (conductor0 (Some 1)) mctx0 lam0 =
     Inr (BSDF (0, 0, 1) (1, 0, 0)
            (ConductorBxDF (TrowbridgeReitzDistribution (1 / 10) (1 / 10)) (\<lambda>i. 1)
               (\<lambda>i. 4843165 / 4194304)))"
    using conductor_constant_reflectance [of "1 / 4"]
    by (simp only: binary32_sqrt_quarter binary32_one_minus_quarter binary32_twice_half
          binary32_sqrt_three_quarters binary32_inversion_quotient)
  have b: "ConductorMaterial_GetBSDF cpu_env (reflectance_texEval (8388609 / 33554432))
     (conductor0 (Some 1)) mctx0 lam0 =
     Inr (BSDF (0, 0, 1) (1, 0, 0)
            (ConductorBxDF (TrowbridgeReitzDistribution (1 / 10) (1 / 10)) (\<lambda>i. 1)
               (\<lambda>i. 4843165 / 4194304)))"
    using conductor_constant_reflectance [of "8388609 / 33554432"]
    by (simp only: binary32_sqrt_next_after_quarter binary32_one_minus_next_after_quarter
          binary32_twice_half binary32_sqrt_three_quarters binary32_inversion_quotient)
  show ?thesis
    using a b by simp
qed

text \<open>
  Claim C8, as amended. When \<^verbatim>\<open>ConductorMaterial::GetBSDF\<close> is given no \<^verbatim>\<open>eta\<close> texture
  and every sample of the evaluated reflectance \<open>r\<close> lies in \<open>[0, 1)\<close>, the scattering
  function is constructed with index 1 and, at every sample, with the absorption
  \<open>k = 2 * sqrt r / sqrt (max 0 (1 - r))\<close> computed in \<^verbatim>\<open>Float\<close> arithmetic, each operation
  rounded to nearest. This \<open>k\<close> is 0 at \<open>r = 0\<close>, and for \<open>0 \<le> r1 \<le> r2 < 1\<close> it is at \<open>r2\<close> not
  smaller than at \<open>r1\<close>: it does not decrease as the reflectance grows.
\<close>

theorem C8_conductor_reflectance_inversion:
  "(let fb = Float_fraction_bits E;
        r = evalSpectrum texEval (ConductorMaterial.reflectance m)
              (TextureEvalContext.truncate ctx) lam;
        kf = (\<lambda>x. round_Float fb
                     (round_Float fb (2 * round_Float fb (sqrt x)) /
                      round_Float fb (sqrt (max 0 (round_Float fb (1 - x))))))
    in (ConductorMaterial.eta m = None \<and> (\<forall>j < NSpectrumSamples E. 0 \<le> r j \<and> r j < 1) \<longrightarrow>
          (\<exists>d. ConductorMaterial_GetBSDF E texEval m ctx lam =
                 Inr (BSDF (MaterialEvalContext.ns ctx) (MaterialEvalContext.dpdus ctx)
                        (ConductorBxDF d (SampledSpectrum 1) (\<lambda>i. kf (r i)))))) \<and>
       kf 0 = 0 \<and>
       (\<forall>x y. 0 \<le> x \<and> x \<le> y \<and> y < 1 \<longrightarrow> kf x \<le> kf y))"
  unfolding Let_def
proof (intro conjI impI allI)
  assume "ConductorMaterial.eta m = None \<and>
    (\<forall>j < NSpectrumSamples E.
        0 \<le> evalSpectrum texEval (ConductorMaterial.reflectance m)
              (TextureEvalContext.truncate ctx) lam j \<and>
        evalSpectrum texEval (ConductorMaterial.reflectance m)
          (TextureEvalContext.truncate ctx) lam j < 1)"
  then show "\<exists>d. ConductorMaterial_GetBSDF E texEval m ctx lam =
           Inr (BSDF (MaterialEvalContext.ns ctx) (MaterialEvalContext.dpdus ctx)
                  (ConductorBxDF d (SampledSpectrum 1)
                     (\<lambda>i. round_Float (Float_fraction_bits E)
                        (round_Float (Float_fraction_bits E)
                           (2 * round_Float (Float_fraction_bits E)
                              (sqrt (evalSpectrum texEval (ConductorMaterial.reflectance m)
                                 (TextureEvalContext.truncate ctx) lam i))) /
                         round_Float (Float_fraction_bits E)
                           (sqrt (max 0 (round_Float (Float_fraction_bits E)
                              (1 - evalSpectrum texEval (ConductorMaterial.reflectance m)
                                 (TextureEvalContext.truncate ctx) lam i))))))))"
    by (intro conductor_inversion_result) simp_all
next
  show "round_Float (Float_fraction_bits E)
          (round_Float (Float_fraction_bits E)
             (2 * round_Float (Float_fraction_bits E) (sqrt 0)) /
           round_Float (Float_fraction_bits E)
             (sqrt (max 0 (round_Float (Float_fraction_bits E) (1 - 0))))) = 0"
    by (rule inversion_zero)
next
  fix x y :: real
  assume "0 \<le> x \<and> x \<le> y \<and> y < 1"
  then show "round_Float (Float_fraction_bits E)
          (round_Float (Float_fraction_bits E)
             (2 * round_Float (Float_fraction_bits E) (sqrt x)) /
           round_Float (Float_fraction_bits E)
             (sqrt (max 0 (round_Float (Float_fraction_bits E) (1 - x)))))
        \<le> round_Float (Float_fraction_bits E)
          (round_Float (Float_fraction_bits E)
             (2 * round_Float (Float_fraction_bits E) (sqrt y)) /
           round_Float (Float_fraction_bits E)
             (sqrt (max 0 (round_Float (Float_fraction_bits E) (1 - y)))))"
    by (intro inversion_mono) simp_all
qed

text \<open>At reflectance 0 the absorption is 0, which is not above the absorption at 0.25.\<close>

theorem C8_conductor_reflectance_inversion_witness:
  "ConductorMaterial.eta (conductor0 (Some 1)) = None \<and>
   ConductorMaterial_GetBSDF cpu_env (reflectance_texEval 0) (conductor0 (Some 1)) mctx0 lam0 =
     Inr (BSDF (0, 0, 1) (1, 0, 0)
            (ConductorBxDF (TrowbridgeReitzDistribution (1 / 10) (1 / 10)) (\<lambda>i. 1) (\<lambda>i. 0))) \<and>
   round_Float 23 (round_Float 23 (2 * round_Float 23 (sqrt 0)) /
     round_Float 23 (sqrt (max 0 (round_Float 23 (1 - 0)))))
   \<le> round_Float 23 (round_Float 23 (2 * round_Float 23 (sqrt (1 / 4))) /
     round_Float 23 (sqrt (max 0 (round_Float 23 (1 - 1 / 4)))))"
proof -
  have call: "ConductorMaterial_GetBSDF cpu_env (reflectance_texEval 0) (conductor0 (Some 1)) mctx0 lam0 =
     Inr (BSDF (0, 0, 1) (1, 0, 0)
            (ConductorBxDF (TrowbridgeReitzDistribution (1 / 10) (1 / 10)) (\<lambda>i. 1) (\<lambda>i. 0)))"
    using conductor_constant_reflectance [of 0] by (simp add: round_Float_zero binary32_one)
  have fb: "Float_fraction_bits cpu_env = 23"
    by (simp add: cpu_env_def)
  show ?thesis
    using C8_conductor_reflectance_inversion
            [of cpu_env "reflectance_texEval 0" "conductor0 (Some 1)" mctx0 lam0,
             unfolded Let_def fb, THEN conjunct2, THEN conjunct2, rule_format, of 0 "1 / 4"]
          call
    by (simp add: conductor0_def)
qed

end
